theory Spec2Isabelle
  imports Complex_Main
begin

section \<open>JavaScript values used by the handlers\<close>

text \<open>
  Strings are character lists; a character stands for one code unit, so the model covers
  the strings whose code units fit in eight bits.  \<open>length\<close> is JavaScript's
  \<open>.length\<close> on them.
\<close>

definition is_digit :: "char \<Rightarrow> bool" where
  "is_digit c = (c \<in> set ''0123456789'')"

definition is_upper :: "char \<Rightarrow> bool" where
  "is_upper c = (c \<in> set ''ABCDEFGHIJKLMNOPQRSTUVWXYZ'')"

definition is_lower :: "char \<Rightarrow> bool" where
  "is_lower c = (c \<in> set ''abcdefghijklmnopqrstuvwxyz'')"

definition is_alpha :: "char \<Rightarrow> bool" where
  "is_alpha c = (is_upper c \<or> is_lower c)"

definition is_alnum :: "char \<Rightarrow> bool" where
  "is_alnum c = (is_alpha c \<or> is_digit c)"

text \<open>The value of a digit in a radix up to sixteen; letters in either case.\<close>

definition digit_value :: "char \<Rightarrow> nat" where
  "digit_value c =
     (case map_of (zip ''0123456789abcdefABCDEF''
                       [0, 1, 2, 3, 4, 5, 6, 7, 8, 9, 10, 11, 12, 13, 14, 15,
                        10, 11, 12, 13, 14, 15]) c of
        Some d \<Rightarrow> d
      | None \<Rightarrow> 0)"

definition radix_value :: "nat \<Rightarrow> string \<Rightarrow> nat" where
  "radix_value b ds = foldl (\<lambda>a c. b * a + digit_value c) 0 ds"

definition radix_digit :: "nat \<Rightarrow> char \<Rightarrow> bool" where
  "radix_digit b c = (c \<in> set ''0123456789abcdefABCDEF'' \<and> digit_value c < b)"

text \<open>\<open>"a.b".split(".")\<close>: the pieces between the separators; the empty string has one
  empty piece.\<close>

fun split_on :: "char \<Rightarrow> string \<Rightarrow> string list" where
  "split_on c [] = [[]]"
| "split_on c (x # xs) =
     (if x = c then [] # split_on c xs
      else (case split_on c xs of
              [] \<Rightarrow> [[x]]
            | p # ps \<Rightarrow> (x # p) # ps))"

subsection \<open>Numbers and \<open>Number(string)\<close>\<close>

text \<open>
  A JavaScript number is \<open>NaN\<close>, an infinity or a finite binary64 value, kept as the
  rational it denotes.  \<open>-0\<close> and \<open>0\<close> are one value, as they are for \<open>===\<close>.
  \<open>Number(s)\<close> first reads the mathematical value of the string, exactly, and then
  rounds it to binary64.
\<close>

datatype jsnum = NaN | PosInf | NegInf | Fin rat

definition isNaN :: "jsnum \<Rightarrow> bool" where
  "isNaN n = (n = NaN)"

definition negate :: "jsnum \<Rightarrow> jsnum" where
  "negate n = (case n of NaN \<Rightarrow> NaN | PosInf \<Rightarrow> NegInf | NegInf \<Rightarrow> PosInf
               | Fin r \<Rightarrow> Fin (- r))"

text \<open>White space and line terminators that \<open>Number\<close> strips at both ends: TAB, LF, VT,
  FF, CR, SP and NBSP are the ones among the eight-bit code units.\<close>

definition is_ws :: "char \<Rightarrow> bool" where
  "is_ws c = (c \<in> set [CHR 0x09, CHR 0x0A, CHR 0x0B, CHR 0x0C, CHR 0x0D, CHR 0x20, CHR 0xA0])"

definition trim :: "string \<Rightarrow> string" where
  "trim s = rev (dropWhile is_ws (rev (dropWhile is_ws s)))"

definition pow10 :: "int \<Rightarrow> rat" where
  "pow10 e = (if 0 \<le> e then 10 ^ nat e else 1 / 10 ^ nat (- e))"

text \<open>The digits of an exponent: at least one, all decimal.\<close>

definition decimal_digits :: "string \<Rightarrow> nat option" where
  "decimal_digits ds =
     (if ds \<noteq> [] \<and> list_all is_digit ds then Some (radix_value 10 ds) else None)"

text \<open>What may follow the mantissa: nothing, or \<open>e\<close>/\<open>E\<close>, an optional sign and digits.\<close>

definition exponent_part :: "string \<Rightarrow> int option" where
  "exponent_part s =
     (case s of
        [] \<Rightarrow> Some 0
      | c # t \<Rightarrow>
          if c = CHR ''e'' \<or> c = CHR ''E'' then
            (case t of
               [] \<Rightarrow> None
             | g # ds \<Rightarrow>
                 if g = CHR ''+'' then map_option int (decimal_digits ds)
                 else if g = CHR ''-'' then map_option (\<lambda>n. - int n) (decimal_digits ds)
                 else map_option int (decimal_digits t))
          else None)"

text \<open>\<open>StrUnsignedDecimalLiteral\<close> without \<open>Infinity\<close>: digits, an optional point and
  fraction, an optional exponent, with a digit on at least one side of the point.  The
  result is the exact mathematical value.\<close>

definition unsigned_decimal :: "string \<Rightarrow> rat option" where
  "unsigned_decimal s =
     (let ip = takeWhile is_digit s;
          r1 = dropWhile is_digit s;
          fp = (case r1 of [] \<Rightarrow> [] | c # t \<Rightarrow> if c = CHR ''.'' then takeWhile is_digit t else []);
          r2 = (case r1 of [] \<Rightarrow> [] | c # t \<Rightarrow> if c = CHR ''.'' then dropWhile is_digit t else r1)
      in if ip = [] \<and> fp = [] then None
         else (case exponent_part r2 of
                 None \<Rightarrow> None
               | Some e \<Rightarrow>
                   Some (of_nat (radix_value 10 (ip @ fp)) * pow10 (e - int (length fp)))))"

definition unsigned_literal :: "string \<Rightarrow> jsnum" where
  "unsigned_literal s =
     (if s = ''Infinity'' then PosInf
      else (case unsigned_decimal s of None \<Rightarrow> NaN | Some r \<Rightarrow> Fin r))"

definition str_decimal_literal :: "string \<Rightarrow> jsnum" where
  "str_decimal_literal s =
     (case s of
        [] \<Rightarrow> NaN
      | c # t \<Rightarrow>
          if c = CHR ''+'' then unsigned_literal t
          else if c = CHR ''-'' then negate (unsigned_literal t)
          else unsigned_literal s)"

text \<open>\<open>0x\<close>, \<open>0o\<close> and \<open>0b\<close> literals: no sign, at least one digit of the radix.\<close>

definition non_decimal_literal :: "string \<Rightarrow> nat option" where
  "non_decimal_literal s =
     (case s of
        z # p # ds \<Rightarrow>
          (let b = (if p = CHR ''x'' \<or> p = CHR ''X'' then 16
                    else if p = CHR ''o'' \<or> p = CHR ''O'' then 8
                    else if p = CHR ''b'' \<or> p = CHR ''B'' then 2 else (0::nat))
           in if z = CHR ''0'' \<and> b \<noteq> 0 \<and> ds \<noteq> [] \<and> list_all (radix_digit b) ds
              then Some (radix_value b ds) else None)
      | _ \<Rightarrow> None)"

text \<open>The mathematical value of a string as a numeric literal (\<open>StringNumericValue\<close> of
  the language definition): white space is stripped, the empty string is \<open>0\<close>, and a
  string that is not a numeric literal is \<open>NaN\<close>.\<close>

definition StringNumericValue :: "string \<Rightarrow> jsnum" where
  "StringNumericValue s =
     (let t = trim s
      in if t = [] then Fin 0
         else (case non_decimal_literal t of
                 Some n \<Rightarrow> Fin (of_nat n)
               | None \<Rightarrow> str_decimal_literal t))"

subsubsection \<open>Rounding to binary64\<close>

text \<open>
  A mathematical value becomes the nearest binary64 number, ties to the even
  significand (as Node's engine rounds): a significand of 53 bits, the least exponent
  \<open>-1074\<close> for the subnormal numbers, and an infinity once the rounded magnitude
  reaches \<open>2^1024\<close>.
\<close>

definition pow2 :: "int \<Rightarrow> rat" where
  "pow2 e = (if 0 \<le> e then 2 ^ nat e else 1 / 2 ^ nat (- e))"

text \<open>The number of binary digits of a natural number.\<close>

fun bit_length :: "nat \<Rightarrow> nat" where
  "bit_length n = (if n = 0 then 0 else Suc (bit_length (n div 2)))"

text \<open>For a positive rational \<open>q\<close>, the exponent \<open>k\<close> with \<open>2^k \<le> q < 2^(k+1)\<close>: the
  difference of the bit lengths of numerator and denominator, or one less.\<close>

definition binade :: "rat \<Rightarrow> int" where
  "binade q =
     (let k = int (bit_length (nat (fst (quotient_of q))))
              - int (bit_length (nat (snd (quotient_of q))))
      in if pow2 k \<le> q then k else k - 1)"

definition round_half_even :: "rat \<Rightarrow> int" where
  "round_half_even x =
     (let f = \<lfloor>x\<rfloor>;
          d = x - of_int f
      in if d < 1 / 2 then f
         else if 1 / 2 < d then f + 1
         else if even f then f else f + 1)"

text \<open>A magnitude \<open>q \<ge> 0\<close> rounded: the unit in the last place is \<open>2^e\<close>.\<close>

definition round_magnitude :: "rat \<Rightarrow> jsnum" where
  "round_magnitude q =
     (if q = 0 then Fin 0
      else
        (let e = max (binade q - 52) (- 1074);
             r = of_int (round_half_even (q / pow2 e)) * pow2 e
         in if pow2 1024 \<le> r then PosInf else Fin r))"

definition to_double :: "rat \<Rightarrow> jsnum" where
  "to_double q = (if q < 0 then negate (round_magnitude (- q)) else round_magnitude q)"

text \<open>\<open>Number(s)\<close> for a string \<open>s\<close>.\<close>

definition Number :: "string \<Rightarrow> jsnum" where
  "Number s = (case StringNumericValue s of Fin q \<Rightarrow> to_double q | v \<Rightarrow> v)"

subsection \<open>JSON values\<close>

text \<open>A value parsed from a JSON body or sent in one.  \<open>undefined\<close> is \<open>None\<close> of
  \<open>json option\<close>: a missing body, a missing property.  An object is the list of its
  properties (after parsing, so the keys are distinct).\<close>

datatype json =
    JNull
  | JBool bool
  | JNum rat
  | JStr string
  | JArr "json list"
  | JObj "(string \<times> json) list"

text \<open>\<open>value.key\<close> for the keys the handlers read: only an object has them.\<close>

definition property :: "json \<Rightarrow> string \<Rightarrow> json option" where
  "property v k = (case v of JObj fs \<Rightarrow> map_of fs k | _ \<Rightarrow> None)"

text \<open>The truth value that \<open>if (v)\<close> tests.\<close>

definition truthy :: "json option \<Rightarrow> bool" where
  "truthy v =
     (case v of
        None \<Rightarrow> False
      | Some JNull \<Rightarrow> False
      | Some (JBool b) \<Rightarrow> b
      | Some (JNum r) \<Rightarrow> r \<noteq> 0
      | Some (JStr s) \<Rightarrow> s \<noteq> []
      | Some (JArr _) \<Rightarrow> True
      | Some (JObj _) \<Rightarrow> True)"

text \<open>An object literal whose \<open>undefined\<close> properties are left out when it is serialised.\<close>

definition object_of :: "(string \<times> json option) list \<Rightarrow> json" where
  "object_of kvs = JObj (List.map_filter (\<lambda>(k, v). map_option (Pair k) v) kvs)"

text \<open>A number in a JSON body: \<open>NaN\<close> and the infinities serialise as \<open>null\<close>.\<close>

definition json_of_num :: "jsnum \<Rightarrow> json" where
  "json_of_num n = (case n of Fin r \<Rightarrow> JNum r | _ \<Rightarrow> JNull)"

section \<open>Requests, responses and middleware\<close>

record request =
  authorization :: "string option"  \<comment> \<open>\<open>req.headers.authorization\<close>\<close>
  param_id :: string  \<comment> \<open>\<open>req.params.id\<close>\<close>
  body :: "json option"  \<comment> \<open>\<open>req.body\<close>\<close>
  user :: "nat option"  \<comment> \<open>\<open>req.user\<close>, an object with the one property \<open>id\<close>\<close>

record response =
  status :: nat
  content :: "json option"  \<comment> \<open>the JSON body; \<open>None\<close> when \<open>send()\<close> has no argument\<close>

definition reply :: "nat \<Rightarrow> json \<Rightarrow> response" where
  "reply code v = \<lparr>status = code, content = Some v\<rparr>"

text \<open>A middleware either answers the request itself or calls \<open>next()\<close>.\<close>

datatype 'a step = Reply response | Next 'a

section \<open>Input validators\<close>

text \<open>
  The schemas are built with the zod library.  Its part is modelled as follows: an
  object schema wants a plain object and then checks its keys in the order they are
  written, collecting every issue; a string schema wants a string and then runs all its
  checks; \<open>optional()\<close> lets \<open>undefined\<close> through.  An issue is represented by its
  message; where the source gives none it is the library's English text.
\<close>

definition type_name :: "json option \<Rightarrow> string" where
  "type_name v =
     (case v of
        None \<Rightarrow> ''undefined''
      | Some JNull \<Rightarrow> ''null''
      | Some (JBool _) \<Rightarrow> ''boolean''
      | Some (JNum _) \<Rightarrow> ''number''
      | Some (JStr _) \<Rightarrow> ''string''
      | Some (JArr _) \<Rightarrow> ''array''
      | Some (JObj _) \<Rightarrow> ''object'')"

definition invalid_input :: "string \<Rightarrow> json option \<Rightarrow> string" where
  "invalid_input expected v =
     ''Invalid input: expected '' @ expected @ '', received '' @ type_name v"

text \<open>\<open>z.object({...})\<close>: the properties of a plain object, or the issue.\<close>

definition z_object :: "json option \<Rightarrow> ((string \<times> json) list \<Rightarrow> string list) \<Rightarrow> string list" where
  "z_object v shape =
     (case v of
        Some (JObj fs) \<Rightarrow> shape fs
      | _ \<Rightarrow> [invalid_input ''object'' v])"

text \<open>\<open>z.string().min(lo, m1).max(hi, m2)\<close>.\<close>

definition z_string_min_max :: "nat \<Rightarrow> string \<Rightarrow> nat \<Rightarrow> string \<Rightarrow> json option \<Rightarrow> string list" where
  "z_string_min_max lo m1 hi m2 v =
     (case v of
        Some (JStr s) \<Rightarrow>
          (if length s < lo then [m1] else []) @ (if hi < length s then [m2] else [])
      | _ \<Rightarrow> [invalid_input ''string'' v])"

text \<open>\<open>z.string()\<close> and \<open>z.string(m)\<close>.\<close>

definition z_string :: "json option \<Rightarrow> string list" where
  "z_string v = (case v of Some (JStr s) \<Rightarrow> [] | _ \<Rightarrow> [invalid_input ''string'' v])"

definition z_string_msg :: "string \<Rightarrow> json option \<Rightarrow> string list" where
  "z_string_msg m v = (case v of Some (JStr s) \<Rightarrow> [] | _ \<Rightarrow> [m])"

text \<open>\<open>z.string().regex(/^\d+$/, m)\<close>: one or more decimal digits and nothing else.\<close>

definition z_digits :: "string \<Rightarrow> json option \<Rightarrow> string list" where
  "z_digits m v =
     (case v of
        Some (JStr s) \<Rightarrow> (if s \<noteq> [] \<and> list_all is_digit s then [] else [m])
      | _ \<Rightarrow> [invalid_input ''string'' v])"

text \<open>\<open>z.email(m)\<close>: a string in the library's e-mail format; \<open>m\<close> is the message of every
  issue.  The format test is a parameter of the validators that use it.\<close>

definition z_email :: "(string \<Rightarrow> bool) \<Rightarrow> string \<Rightarrow> json option \<Rightarrow> string list" where
  "z_email is_email m v =
     (case v of
        Some (JStr s) \<Rightarrow> (if is_email s then [] else [m])
      | _ \<Rightarrow> [m])"

definition z_optional :: "(json option \<Rightarrow> string list) \<Rightarrow> json option \<Rightarrow> string list" where
  "z_optional schema v = (case v of None \<Rightarrow> [] | Some _ \<Rightarrow> schema v)"

text \<open>
  Modelled from the spec: the e-mail format test of the zod library is missing from the
  sources; the spec asks for "valid email syntax per standard email-format rules".  The
  test below follows the library's pattern
  \<^verbatim>\<open>^(?!\.)(?!.*\.\.)([A-Za-z0-9_'+\-\.]*)[A-Za-z0-9_+-]@([A-Za-z0-9][A-Za-z0-9\-]*\.)+[A-Za-z]{2,}$\<close>
  read as a test: one \<open>@\<close>; a local part of the listed characters that neither starts
  with a dot, nor has two dots in a row, nor ends in a dot or an apostrophe; a domain of
  two or more dot-separated labels, the last one of two or more letters, the others
  starting with a letter or digit and continuing with letters, digits and hyphens.
\<close>

fun two_dots :: "string \<Rightarrow> bool" where
  "two_dots (a # b # s) = ((a = CHR ''.'' \<and> b = CHR ''.'') \<or> two_dots (b # s))"
| "two_dots _ = False"

definition local_part_ok :: "string \<Rightarrow> bool" where
  "local_part_ok l =
     (case rev l of
        [] \<Rightarrow> False
      | z # _ \<Rightarrow>
          (is_alnum z \<or> z \<in> set ''_+-'')
          \<and> list_all (\<lambda>c. is_alnum c \<or> c \<in> set ''_+-.'' \<or> c = CHR 0x27) l
          \<and> take 1 l \<noteq> ''.''
          \<and> \<not> two_dots l)"

definition label_ok :: "string \<Rightarrow> bool" where
  "label_ok lab =
     (case lab of
        [] \<Rightarrow> False
      | c # cs \<Rightarrow> is_alnum c \<and> list_all (\<lambda>x. is_alnum x \<or> x = CHR ''-'') cs)"

definition domain_ok :: "string \<Rightarrow> bool" where
  "domain_ok d =
     (case rev (split_on (CHR ''.'') d) of
        [] \<Rightarrow> False
      | tld # labels \<Rightarrow>
          labels \<noteq> [] \<and> list_all label_ok labels \<and> 2 \<le> length tld \<and> list_all is_alpha tld)"

definition zod_email :: "string \<Rightarrow> bool" where
  "zod_email s =
     (case split_on (CHR ''@'') s of
        [l, d] \<Rightarrow> local_part_ok l \<and> domain_ok d
      | _ \<Rightarrow> False)"

subsection \<open>The schemas\<close>

definition requiredUserDataSchema :: "(string \<Rightarrow> bool) \<Rightarrow> json option \<Rightarrow> string list" where
  "requiredUserDataSchema is_email v =
     z_object v (\<lambda>fs.
       z_string_min_max 2 ''Username must be at least 2 characters''
                        50 ''Username must not exceed 50 characters'' (map_of fs ''username'')
       @ z_email is_email ''Email must be a valid email'' (map_of fs ''email''))"

definition userIdSchema :: "string \<Rightarrow> string list" where
  "userIdSchema id_param = z_digits ''ID must be a positive number'' (Some (JStr id_param))"

definition partialUserDataSchema :: "json option \<Rightarrow> string list" where
  "partialUserDataSchema v =
     z_object v (\<lambda>fs.
       z_optional (z_string_min_max 2 ''Username must be at least 2 characters''
                                    50 ''Username must be at least 50 characters'')
                  (map_of fs ''username'')
       @ z_optional (z_string_msg ''Email must be a valid email'') (map_of fs ''email''))"

definition loginSchema :: "(string \<Rightarrow> bool) \<Rightarrow> json option \<Rightarrow> string list" where
  "loginSchema is_email v =
     z_object v (\<lambda>fs.
       z_email is_email ''Email must be a valid email'' (map_of fs ''email'')
       @ z_string (map_of fs ''password''))"

subsection \<open>The validating middleware\<close>

definition validation_failed :: "string list \<Rightarrow> response" where
  "validation_failed issues =
     reply 400 (JObj [(''error'', JStr ''Validation failed''),
                      (''details'', JArr (map JStr issues))])"

text \<open>\<open>safeParse\<close> succeeds when there is no issue.\<close>

definition validated :: "string list \<Rightarrow> request \<Rightarrow> request step" where
  "validated issues req = (if issues = [] then Next req else Reply (validation_failed issues))"

definition validateUserId :: "request \<Rightarrow> request step" where
  "validateUserId req = validated (userIdSchema (param_id req)) req"

definition validateRequiredUserData :: "(string \<Rightarrow> bool) \<Rightarrow> request \<Rightarrow> request step" where
  "validateRequiredUserData is_email req = validated (requiredUserDataSchema is_email (body req)) req"

definition validatePartialUserData :: "request \<Rightarrow> request step" where
  "validatePartialUserData req = validated (partialUserDataSchema (body req)) req"

definition validateLogin :: "(string \<Rightarrow> bool) \<Rightarrow> request \<Rightarrow> request step" where
  "validateLogin is_email req = validated (loginSchema is_email (body req)) req"

section \<open>Token codec\<close>

text \<open>
  \<open>jwt.sign\<close> and \<open>jwt.verify\<close> belong to the jsonwebtoken library, which is not among
  the sources.  A token is three segments joined by dots (header, claims, signature);
  the signature is a keyed function \<open>mac\<close> of the first two segments, taken as a
  parameter; the claims segment is written here as three decimal numbers; the clock is
  the argument \<open>now\<close>, in seconds.
\<close>

record payload =
  userId :: nat
  iat :: nat
  expires :: nat  \<comment> \<open>the claim \<open>exp\<close>\<close>

datatype jwt_error = JsonWebTokenError | TokenExpiredError

definition digit_char :: "nat \<Rightarrow> char" where
  "digit_char d = ''0123456789'' ! d"

function show_nat :: "nat \<Rightarrow> string" where
  "show_nat n = (if n < 10 then [digit_char n] else show_nat (n div 10) @ [digit_char (n mod 10)])"
  by pat_completeness auto
termination
  by (relation "measure id") auto

definition encode_claims :: "payload \<Rightarrow> string" where
  "encode_claims c = show_nat (userId c) @ '','' @ show_nat (iat c) @ '','' @ show_nat (expires c)"

definition decode_claims :: "string \<Rightarrow> payload option" where
  "decode_claims s =
     (case map decimal_digits (split_on (CHR '','') s) of
        [Some u, Some i, Some e] \<Rightarrow> Some \<lparr>userId = u, iat = i, expires = e\<rparr>
      | _ \<Rightarrow> None)"

definition jwt_header :: string where
  "jwt_header = ''HS256''"

definition signing_input :: "payload \<Rightarrow> string" where
  "signing_input c = jwt_header @ ''.'' @ encode_claims c"

text \<open>Modelled from the spec: \<open>jwt.sign\<close> of the jsonwebtoken library is missing from the
  sources.  It "produces a signed string encoding \<open>{userId, issuedAt, expiry = issuedAt +
  24h}\<close>", a "pure function of secret + input + clock"; the lifetime is the argument
  \<open>expiresIn\<close>.\<close>

definition jwt_sign :: "(string \<Rightarrow> string \<Rightarrow> string) \<Rightarrow> nat \<Rightarrow> nat \<Rightarrow> string \<Rightarrow> nat \<Rightarrow> string" where
  "jwt_sign mac now uid secret expiresIn =
     (let c = \<lparr>userId = uid, iat = now, expires = now + expiresIn\<rparr>
      in signing_input c @ ''.'' @ mac secret (signing_input c))"

text \<open>Modelled from the spec: \<open>jwt.verify\<close> of the jsonwebtoken library is missing from
  the sources.  It "checks signature and expiry" and fails on a "malformed token,
  signature mismatch, or expiry in the past"; the library reports a failure by
  throwing, which is the left summand.  A token expires when the clock reaches its
  expiry time.\<close>

definition jwt_verify :: "(string \<Rightarrow> string \<Rightarrow> string) \<Rightarrow> nat \<Rightarrow> string \<Rightarrow> string \<Rightarrow> jwt_error + payload" where
  "jwt_verify mac now token secret =
     (case split_on (CHR ''.'') token of
        [h, c, sg] \<Rightarrow>
          (case decode_claims c of
             None \<Rightarrow> Inl JsonWebTokenError
           | Some p \<Rightarrow>
               if h \<noteq> jwt_header then Inl JsonWebTokenError
               else if sg \<noteq> mac secret (h @ ''.'' @ c) then Inl JsonWebTokenError
               else if expires p \<le> now then Inl TokenExpiredError
               else Inr p)
      | _ \<Rightarrow> Inl JsonWebTokenError)"

text \<open>The two functions of \<open>utils/jwt.ts\<close>.  \<open>JWT_SECRET\<close> is the argument \<open>secret\<close>; a
  token lives for 24 hours; whatever \<open>jwt.verify\<close> throws becomes \<open>null\<close>.\<close>

definition generateToken :: "(string \<Rightarrow> string \<Rightarrow> string) \<Rightarrow> string \<Rightarrow> nat \<Rightarrow> nat \<Rightarrow> string" where
  "generateToken mac secret now uid = jwt_sign mac now uid secret (24 * 3600)"

definition verifyToken :: "(string \<Rightarrow> string \<Rightarrow> string) \<Rightarrow> string \<Rightarrow> nat \<Rightarrow> string \<Rightarrow> payload option" where
  "verifyToken mac secret now token =
     (case jwt_verify mac now token secret of
        Inl error \<Rightarrow> None
      | Inr p \<Rightarrow> Some p)"

section \<open>Authentication middleware\<close>

definition unauthorized :: "string \<Rightarrow> response" where
  "unauthorized m = reply 401 (JObj [(''error'', JStr m)])"

text \<open>\<open>verify\<close> is \<open>verifyToken\<close> as the module imports it.  \<open>!authHeader\<close> holds for a
  missing header and for an empty one; \<open>startsWith("Bearer ")\<close> compares the first seven
  code units.\<close>

definition authenticateToken :: "(string \<Rightarrow> payload option) \<Rightarrow> request \<Rightarrow> request step" where
  "authenticateToken verify req =
     (case authorization req of
        None \<Rightarrow> Reply (unauthorized ''Access token required'')
      | Some authHeader \<Rightarrow>
          if authHeader = [] then Reply (unauthorized ''Access token required'')
          else if take 7 authHeader \<noteq> ''Bearer '' then
            Reply (unauthorized ''Token must be in format: Bearer <token>'')
          else
            (case verify (drop 7 authHeader) of
               None \<Rightarrow> Reply (reply 403 (JObj [(''error'', JStr ''Invalid or expired token'')]))
             | Some p \<Rightarrow> Next (req\<lparr>user := Some (userId p)\<rparr>)))"

section \<open>Storage\<close>

text \<open>
  The connection pool and the database behind it, as far as the statements of the
  handlers go.  A table is the list of its rows in the order a scan visits them; a
  \<open>SELECT\<close> without \<open>ORDER BY\<close> returns the rows in that order.  Identifiers are assigned
  by the storage from a counter.  Timestamps are seconds.  \<open>available\<close> says whether the
  storage can be reached: when it cannot, \<open>pool.execute\<close> rejects.  \<open>executed\<close> is the
  trace of the statements handed to \<open>pool.execute\<close>.  Constraints between tables and
  uniqueness of names are not part of the model.
\<close>

record user_row =
  u_id :: nat
  u_username :: string
  u_email :: string
  u_password :: "string option"

record post_row =
  p_id :: nat
  p_title :: string
  p_content :: string
  p_user_id :: nat
  p_created_at :: nat

datatype column = Username | Email

datatype update =
    InsertUser "json option" "json option"
      \<comment> \<open>\<open>INSERT INTO users (username, email) VALUES (?, ?)\<close>\<close>
  | UpdateUser "json option" "json option" jsnum
      \<comment> \<open>\<open>UPDATE users SET username = ?, email = ? WHERE id = ?\<close>\<close>
  | UpdateUserSet "(column \<times> json option) list" jsnum
      \<comment> \<open>\<open>UPDATE users SET\<close> \<open>c = ?\<close> joined by commas \<open>WHERE id = ?\<close>\<close>
  | DeleteUser jsnum
      \<comment> \<open>\<open>DELETE FROM users WHERE id = ?\<close>\<close>

datatype query =
    SelectUsers
      \<comment> \<open>\<open>SELECT * FROM users\<close>\<close>
  | SelectUserById jsnum
      \<comment> \<open>\<open>SELECT * FROM users WHERE id = ?\<close>\<close>
  | SelectPostsByUser jsnum
      \<comment> \<open>\<open>SELECT ... FROM posts WHERE posts.user_id = ? ORDER BY posts.created_at DESC\<close>\<close>
  | SelectPostsWithUserByUser jsnum
      \<comment> \<open>\<open>SELECT ... FROM posts INNER JOIN users ON posts.user_id = users.id WHERE users.id = ?\<close>\<close>
  | SelectPostsWithUser
      \<comment> \<open>\<open>SELECT ... FROM posts INNER JOIN users ON posts.user_id = users.id
          ORDER BY posts.created_at DESC\<close>\<close>

datatype statement = Update update | Query query

datatype db_error = Connection_error | Parse_error | Bind_error

record pool =
  users :: "user_row list"
  posts :: "post_row list"
  auto_increment :: nat
  available :: bool
  executed :: "statement list"

record header =
  insertId :: nat
  affectedRows :: nat

text \<open>The rows as the driver hands them over: one object per row, one property per
  selected column.  \<open>SELECT *\<close> selects every column of \<open>users\<close>.\<close>

definition user_columns :: "user_row \<Rightarrow> json" where
  "user_columns u =
     JObj [(''id'', JNum (of_nat (u_id u))),
           (''username'', JStr (u_username u)),
           (''email'', JStr (u_email u)),
           (''password'', (case u_password u of None \<Rightarrow> JNull | Some h \<Rightarrow> JStr h))]"

definition post_columns :: "post_row \<Rightarrow> json" where
  "post_columns p =
     JObj [(''id'', JNum (of_nat (p_id p))),
           (''title'', JStr (p_title p)),
           (''content'', JStr (p_content p)),
           (''user_id'', JNum (of_nat (p_user_id p))),
           (''created_at'', JNum (of_nat (p_created_at p)))]"

definition post_user_columns :: "post_row \<times> user_row \<Rightarrow> json" where
  "post_user_columns pu =
     JObj [(''id'', JNum (of_nat (p_id (fst pu)))),
           (''title'', JStr (p_title (fst pu))),
           (''content'', JStr (p_content (fst pu))),
           (''user_id'', JNum (of_nat (p_user_id (fst pu)))),
           (''created_at'', JNum (of_nat (p_created_at (fst pu)))),
           (''username'', JStr (u_username (snd pu))),
           (''email'', JStr (u_email (snd pu)))]"

text \<open>\<open>column = ?\<close> with a number bound: the identifier has that value.\<close>

definition id_is :: "jsnum \<Rightarrow> nat \<Rightarrow> bool" where
  "id_is n i = (n = Fin (of_nat i))"

text \<open>\<open>ORDER BY posts.created_at DESC\<close>.\<close>

definition order_desc :: "('a \<Rightarrow> nat) \<Rightarrow> 'a list \<Rightarrow> 'a list" where
  "order_desc created rows = rev (sort_key created rows)"

text \<open>\<open>posts INNER JOIN users ON posts.user_id = users.id\<close>.\<close>

definition posts_join_users :: "pool \<Rightarrow> (post_row \<times> user_row) list" where
  "posts_join_users db =
     concat (map (\<lambda>p. map (Pair p) (filter (\<lambda>u. u_id u = p_user_id p) (users db))) (posts db))"

definition run_query :: "query \<Rightarrow> pool \<Rightarrow> json list" where
  "run_query q db =
     (case q of
        SelectUsers \<Rightarrow> map user_columns (users db)
      | SelectUserById n \<Rightarrow> map user_columns (filter (\<lambda>u. id_is n (u_id u)) (users db))
      | SelectPostsByUser n \<Rightarrow>
          map post_columns
            (order_desc p_created_at (filter (\<lambda>p. id_is n (p_user_id p)) (posts db)))
      | SelectPostsWithUserByUser n \<Rightarrow>
          map post_user_columns (filter (\<lambda>pu. id_is n (u_id (snd pu))) (posts_join_users db))
      | SelectPostsWithUser \<Rightarrow>
          map post_user_columns (order_desc (\<lambda>pu. p_created_at (fst pu)) (posts_join_users db)))"

text \<open>A value bound to a text column.  The driver refuses \<open>undefined\<close>; the validators in
  front of the handlers let only strings reach a statement, and the model lets the
  storage refuse every other value too.\<close>

definition bound_text :: "json option \<Rightarrow> string option" where
  "bound_text v = (case v of Some (JStr s) \<Rightarrow> Some s | _ \<Rightarrow> None)"

definition set_column :: "column \<times> string \<Rightarrow> user_row \<Rightarrow> user_row" where
  "set_column cv u =
     (case fst cv of
        Username \<Rightarrow> u\<lparr>u_username := snd cv\<rparr>
      | Email \<Rightarrow> u\<lparr>u_email := snd cv\<rparr>)"

definition matching :: "jsnum \<Rightarrow> pool \<Rightarrow> nat" where
  "matching n db = length (filter (\<lambda>u. id_is n (u_id u)) (users db))"

text \<open>The effect of a data-changing statement.  An \<open>UPDATE\<close> whose \<open>SET\<close> list is empty is
  not a statement of the SQL grammar: the storage rejects it.  The number of affected
  rows is the number of rows the \<open>WHERE\<close> clause matches.\<close>

definition apply_update :: "update \<Rightarrow> pool \<Rightarrow> db_error + header \<times> pool" where
  "apply_update q db =
     (case q of
        InsertUser username email \<Rightarrow>
          (case (bound_text username, bound_text email) of
             (Some n, Some e) \<Rightarrow>
               Inr (\<lparr>insertId = auto_increment db, affectedRows = 1\<rparr>,
                    db\<lparr>users := users db @ [\<lparr>u_id = auto_increment db, u_username = n,
                                              u_email = e, u_password = None\<rparr>],
                       auto_increment := Suc (auto_increment db)\<rparr>)
           | _ \<Rightarrow> Inl Bind_error)
      | UpdateUser username email n \<Rightarrow>
          (case (bound_text username, bound_text email) of
             (Some name, Some e) \<Rightarrow>
               Inr (\<lparr>insertId = 0, affectedRows = matching n db\<rparr>,
                    db\<lparr>users := map (\<lambda>u. if id_is n (u_id u)
                                           then u\<lparr>u_username := name, u_email := e\<rparr> else u)
                                     (users db)\<rparr>)
           | _ \<Rightarrow> Inl Bind_error)
      | UpdateUserSet assignments n \<Rightarrow>
          if assignments = [] then Inl Parse_error
          else
            (case those (map (\<lambda>cv. map_option (Pair (fst cv)) (bound_text (snd cv))) assignments) of
               None \<Rightarrow> Inl Bind_error
             | Some cvs \<Rightarrow>
                 Inr (\<lparr>insertId = 0, affectedRows = matching n db\<rparr>,
                      db\<lparr>users := map (\<lambda>u. if id_is n (u_id u) then fold set_column cvs u else u)
                                       (users db)\<rparr>))
      | DeleteUser n \<Rightarrow>
          Inr (\<lparr>insertId = 0, affectedRows = matching n db\<rparr>,
               db\<lparr>users := filter (\<lambda>u. \<not> id_is n (u_id u)) (users db)\<rparr>))"

text \<open>\<open>pool.execute\<close>, for a statement that changes data and for one that reads.  The
  left summand is the rejection of the promise.\<close>

definition execute_update :: "update \<Rightarrow> pool \<Rightarrow> (db_error + header) \<times> pool" where
  "execute_update q db =
     (let db1 = db\<lparr>executed := executed db @ [Update q]\<rparr>
      in if \<not> available db then (Inl Connection_error, db1)
         else (case apply_update q db1 of
                 Inl e \<Rightarrow> (Inl e, db1)
               | Inr (h, db2) \<Rightarrow> (Inr h, db2)))"

definition execute_query :: "query \<Rightarrow> pool \<Rightarrow> (db_error + json list) \<times> pool" where
  "execute_query q db =
     (let db1 = db\<lparr>executed := executed db @ [Query q]\<rparr>
      in if \<not> available db then (Inl Connection_error, db1)
         else (Inr (run_query q db1), db1))"

section \<open>Resource handlers\<close>

text \<open>
  A handler takes the pool and the request and gives the response it sends and the pool
  afterwards.  A handler that is left by an exception it does not catch has sent no
  response: \<open>Escaped\<close>.  What the framework does with such an exception is beyond the
  handler and not modelled.
\<close>

datatype outcome = Responded response | Escaped db_error

definition internal_error :: response where
  "internal_error = reply 500 (JObj [(''message'', JStr ''Internal server error'')])"

definition not_found :: response where
  "not_found = reply 404 (JObj [(''message'', JStr ''User not found'')])"

definition forbidden :: response where
  "forbidden = reply 403 (JObj [(''error'', JStr ''Users can only update their own account'')])"

text \<open>\<open>const { username, email } = req.body\<close> throws on \<open>undefined\<close> and \<open>null\<close>.\<close>

definition destructure :: "json option \<Rightarrow> json option" where
  "destructure b = (case b of None \<Rightarrow> None | Some JNull \<Rightarrow> None | Some v \<Rightarrow> Some v)"

text \<open>\<open>router.post("/")\<close> of \<open>routes/users.ts\<close>, after its validator.\<close>

definition post_users :: "pool \<Rightarrow> request \<Rightarrow> outcome \<times> pool" where
  "post_users db req =
     (case destructure (body req) of
        None \<Rightarrow> (Responded internal_error, db)
      | Some b \<Rightarrow>
          (let username = property b ''username'';
               email = property b ''email''
           in case execute_update (InsertUser username email) db of
                (Inl error, db1) \<Rightarrow> (Responded internal_error, db1)
              | (Inr result, db1) \<Rightarrow>
                  (Responded (reply 201 (object_of [(''id'', Some (JNum (of_nat (insertId result)))),
                                                    (''username'', username),
                                                    (''email'', email)])), db1)))"

text \<open>\<open>router.get("/")\<close> of \<open>routes/users.ts\<close>.\<close>

definition get_users :: "pool \<Rightarrow> request \<Rightarrow> outcome \<times> pool" where
  "get_users db req =
     (case execute_query SelectUsers db of
        (Inl error, db1) \<Rightarrow> (Responded internal_error, db1)
      | (Inr rows, db1) \<Rightarrow> (Responded (reply 200 (JArr rows)), db1))"

text \<open>\<open>router.get("/:id")\<close>, after its validator.\<close>

definition get_user :: "pool \<Rightarrow> request \<Rightarrow> outcome \<times> pool" where
  "get_user db req =
     (let userId = Number (param_id req)
      in case execute_query (SelectUserById userId) db of
           (Inl error, db1) \<Rightarrow> (Responded internal_error, db1)
         | (Inr [], db1) \<Rightarrow> (Responded not_found, db1)
         | (Inr (u # us), db1) \<Rightarrow> (Responded (reply 200 u), db1))"

text \<open>\<open>router.put("/:id")\<close>, after its middleware.  \<open>req.user!.id\<close> throws inside the
  \<open>try\<close> when no identity is attached.\<close>

definition put_user :: "pool \<Rightarrow> request \<Rightarrow> outcome \<times> pool" where
  "put_user db req =
     (let userId = Number (param_id req)
      in case destructure (body req) of
           None \<Rightarrow> (Responded internal_error, db)
         | Some b \<Rightarrow>
             (let username = property b ''username'';
                  email = property b ''email''
              in case user req of
                   None \<Rightarrow> (Responded internal_error, db)
                 | Some uid \<Rightarrow>
                     if Fin (of_nat uid) \<noteq> userId then (Responded forbidden, db)
                     else
                       (case execute_update (UpdateUser username email userId) db of
                          (Inl error, db1) \<Rightarrow> (Responded internal_error, db1)
                        | (Inr result, db1) \<Rightarrow>
                            if affectedRows result = 0 then (Responded not_found, db1)
                            else (Responded (reply 200 (object_of [(''id'', Some (json_of_num userId)),
                                                                   (''username'', username),
                                                                   (''email'', email)])), db1))))"

text \<open>\<open>router.patch("/:id")\<close>, after its middleware.  A column is updated when its value
  in the payload is truthy.\<close>

definition patch_user :: "pool \<Rightarrow> request \<Rightarrow> outcome \<times> pool" where
  "patch_user db req =
     (let userId = Number (param_id req)
      in case destructure (body req) of
           None \<Rightarrow> (Responded internal_error, db)
         | Some b \<Rightarrow>
             (let username = property b ''username'';
                  email = property b ''email''
              in case user req of
                   None \<Rightarrow> (Responded internal_error, db)
                 | Some uid \<Rightarrow>
                     if Fin (of_nat uid) \<noteq> userId then (Responded forbidden, db)
                     else
                       (let fieldsToUpdate =
                              (if truthy username then [(Username, username)] else [])
                              @ (if truthy email then [(Email, email)] else [])
                        in case execute_update (UpdateUserSet fieldsToUpdate userId) db of
                             (Inl error, db1) \<Rightarrow> (Responded internal_error, db1)
                           | (Inr result, db1) \<Rightarrow>
                               if affectedRows result = 0 then (Responded not_found, db1)
                               else
                                 (case execute_query (SelectUserById userId) db1 of
                                    (Inl error, db2) \<Rightarrow> (Responded internal_error, db2)
                                  | (Inr [], db2) \<Rightarrow>
                                      (Responded \<lparr>status = 200, content = None\<rparr>, db2)
                                  | (Inr (u # us), db2) \<Rightarrow> (Responded (reply 200 u), db2)))))"

text \<open>\<open>router.delete("/:id")\<close>, after its middleware.\<close>

definition delete_user :: "pool \<Rightarrow> request \<Rightarrow> outcome \<times> pool" where
  "delete_user db req =
     (let userId = Number (param_id req)
      in case user req of
           None \<Rightarrow> (Responded internal_error, db)
         | Some uid \<Rightarrow>
             if Fin (of_nat uid) \<noteq> userId then (Responded forbidden, db)
             else
               (case execute_update (DeleteUser userId) db of
                  (Inl error, db1) \<Rightarrow> (Responded internal_error, db1)
                | (Inr result, db1) \<Rightarrow>
                    if affectedRows result = 0 then (Responded not_found, db1)
                    else (Responded \<lparr>status = 204, content = None\<rparr>, db1)))"

text \<open>\<open>router.get("/:id/posts")\<close>.\<close>

definition get_user_posts :: "pool \<Rightarrow> request \<Rightarrow> outcome \<times> pool" where
  "get_user_posts db req =
     (let userId = Number (param_id req)
      in if isNaN userId then (Responded (reply 400 (JObj [(''error'', JStr ''Invalid user ID'')])), db)
         else
           (case execute_query (SelectPostsByUser userId) db of
              (Inl error, db1) \<Rightarrow>
                (Responded (reply 500 (JObj [(''error'', JStr ''Failed to fetch user posts'')])), db1)
            | (Inr rows, db1) \<Rightarrow> (Responded (reply 200 (JArr rows)), db1)))"

text \<open>\<open>router.get("/:id/posts-with-user")\<close>: no \<open>try\<close> around the storage call.\<close>

definition get_user_posts_with_user :: "pool \<Rightarrow> request \<Rightarrow> outcome \<times> pool" where
  "get_user_posts_with_user db req =
     (let userId = Number (param_id req)
      in case execute_query (SelectPostsWithUserByUser userId) db of
           (Inl error, db1) \<Rightarrow> (Escaped error, db1)
         | (Inr rows, db1) \<Rightarrow> (Responded (reply 200 (JArr rows)), db1))"

text \<open>\<open>router.get("/")\<close> of \<open>routes/posts.ts\<close>.\<close>

definition get_posts :: "pool \<Rightarrow> request \<Rightarrow> outcome \<times> pool" where
  "get_posts db req =
     (case execute_query SelectPostsWithUser db of
        (Inl error, db1) \<Rightarrow>
          (Responded (reply 500 (JObj [(''error'', JStr ''Failed to fetch posts'')])), db1)
      | (Inr rows, db1) \<Rightarrow> (Responded (reply 200 (JArr rows)), db1))"

subsection \<open>Routes: the middleware in front of each handler\<close>

definition through :: "request step \<Rightarrow> pool \<Rightarrow> (request \<Rightarrow> outcome \<times> pool) \<Rightarrow> outcome \<times> pool" where
  "through s db continue = (case s of Reply r \<Rightarrow> (Responded r, db) | Next req \<Rightarrow> continue req)"

definition post_users_route :: "(string \<Rightarrow> bool) \<Rightarrow> pool \<Rightarrow> request \<Rightarrow> outcome \<times> pool" where
  "post_users_route is_email db req =
     through (validateRequiredUserData is_email req) db (post_users db)"

definition get_user_route :: "pool \<Rightarrow> request \<Rightarrow> outcome \<times> pool" where
  "get_user_route db req = through (validateUserId req) db (get_user db)"

definition put_user_route ::
  "(string \<Rightarrow> payload option) \<Rightarrow> (string \<Rightarrow> bool) \<Rightarrow> pool \<Rightarrow> request \<Rightarrow> outcome \<times> pool" where
  "put_user_route verify is_email db req =
     through (authenticateToken verify req) db (\<lambda>req1.
       through (validateUserId req1) db (\<lambda>req2.
         through (validateRequiredUserData is_email req2) db (put_user db)))"

definition patch_user_route ::
  "(string \<Rightarrow> payload option) \<Rightarrow> pool \<Rightarrow> request \<Rightarrow> outcome \<times> pool" where
  "patch_user_route verify db req =
     through (authenticateToken verify req) db (\<lambda>req1.
       through (validateUserId req1) db (\<lambda>req2.
         through (validatePartialUserData req2) db (patch_user db)))"

definition delete_user_route ::
  "(string \<Rightarrow> payload option) \<Rightarrow> pool \<Rightarrow> request \<Rightarrow> outcome \<times> pool" where
  "delete_user_route verify db req =
     through (authenticateToken verify req) db (\<lambda>req1.
       through (validateUserId req1) db (delete_user db))"

section \<open>Example data\<close>

text \<open>A keyed function without dots for the examples, a secret, a token of user 5 issued
  at second 900 and verified at second 1000, and a pool with one user who has two
  posts.\<close>

definition example_mac :: "string \<Rightarrow> string \<Rightarrow> string" where
  "example_mac key m = filter is_alnum (key @ m)"

definition example_token :: string where
  "example_token = generateToken example_mac ''secret'' 900 5"

definition example_verify :: "string \<Rightarrow> payload option" where
  "example_verify = verifyToken example_mac ''secret'' 1000"

definition example_pool :: pool where
  "example_pool =
     \<lparr>users = [\<lparr>u_id = 5, u_username = ''ann'', u_email = ''ann@example.org'',
                 u_password = Some ''$2b$10$N9qo8uLOickgx2ZMRZoMye''\<rparr>],
      posts = [\<lparr>p_id = 1, p_title = ''first'', p_content = ''one'', p_user_id = 5,
                 p_created_at = 100\<rparr>,
               \<lparr>p_id = 2, p_title = ''second'', p_content = ''two'', p_user_id = 5,
                 p_created_at = 200\<rparr>],
      auto_increment = 6,
      available = True,
      executed = []\<rparr>"

definition example_request :: "string option \<Rightarrow> string \<Rightarrow> json option \<Rightarrow> request" where
  "example_request header ident payload =
     \<lparr>authorization = header, param_id = ident, body = payload, user = None\<rparr>"

definition example_payload :: "json option" where
  "example_payload = Some (JObj [(''username'', JStr ''ann''), (''email'', JStr ''ann@example.org'')])"

section \<open>Facts about the model\<close>

declare show_nat.simps [simp del]

lemmas storage_defs = execute_query_def execute_update_def run_query_def apply_update_def
  user_columns_def post_columns_def post_user_columns_def id_is_def order_desc_def
  posts_join_users_def matching_def bound_text_def

subsection \<open>Splitting and decimal numerals\<close>

lemma split_on_none: "c \<notin> set a \<Longrightarrow> split_on c a = [a]"
  by (induction a) auto

lemma split_on_first: "c \<notin> set a \<Longrightarrow> split_on c (a @ c # rest) = a # split_on c rest"
  by (induction a) auto

lemma digit_char_is_digit: "d < 10 \<Longrightarrow> is_digit (digit_char d)"
proof -
  assume "d < 10"
  then have "d \<in> {0,1,2,3,4,5,6,7,8,9}" by auto
  then show ?thesis by (auto simp: is_digit_def digit_char_def)
qed

lemma digit_value_digit_char: "d < 10 \<Longrightarrow> digit_value (digit_char d) = d"
proof -
  assume "d < 10"
  then have "d \<in> {0,1,2,3,4,5,6,7,8,9}" by auto
  then show ?thesis by (auto simp: digit_value_def digit_char_def)
qed

lemma show_nat_digits: "list_all is_digit (show_nat n)"
proof (induction n rule: show_nat.induct)
  case (1 n)
  show ?case
  proof (cases "n < 10")
    case True
    then show ?thesis by (subst show_nat.simps) (simp add: digit_char_is_digit)
  next
    case False
    with 1 show ?thesis by (subst show_nat.simps) (simp add: digit_char_is_digit)
  qed
qed

lemma show_nat_nonempty: "show_nat n \<noteq> []"
  by (subst show_nat.simps) simp

lemma radix_value_snoc: "radix_value b (ds @ [c]) = b * radix_value b ds + digit_value c"
  by (simp add: radix_value_def)

lemma radix_value_show_nat: "radix_value 10 (show_nat n) = n"
proof (induction n rule: show_nat.induct)
  case (1 n)
  show ?case
  proof (cases "n < 10")
    case True
    then show ?thesis
      by (subst show_nat.simps) (simp add: radix_value_def digit_value_digit_char)
  next
    case False
    with 1 have "radix_value 10 (show_nat (n div 10)) = n div 10" by simp
    with False show ?thesis
      by (subst show_nat.simps) (simp add: radix_value_snoc digit_value_digit_char)
  qed
qed

lemma decimal_digits_show_nat: "decimal_digits (show_nat n) = Some n"
  by (simp add: decimal_digits_def show_nat_digits show_nat_nonempty radix_value_show_nat)

lemma digit_not_separator: "is_digit c \<Longrightarrow> c \<noteq> CHR ''.'' \<and> c \<noteq> CHR '',''"
  by (auto simp: is_digit_def)

lemma show_nat_no_separator:
  "CHR ''.'' \<notin> set (show_nat n) \<and> CHR '','' \<notin> set (show_nat n)"
  using show_nat_digits[of n] digit_not_separator by (auto simp: list_all_iff)

subsection \<open>The token codec\<close>

lemma decode_encode_claims: "decode_claims (encode_claims c) = Some c"
  by (simp add: decode_claims_def encode_claims_def split_on_first split_on_none
        show_nat_no_separator decimal_digits_show_nat)

lemma encode_claims_no_dot: "CHR ''.'' \<notin> set (encode_claims c)"
  by (simp add: encode_claims_def show_nat_no_separator)

lemma jwt_verify_sign:
  assumes "\<And>m. CHR ''.'' \<notin> set (mac secret m)"
  shows "jwt_verify mac now (jwt_sign mac issued uid secret ttl) secret =
           (if issued + ttl \<le> now then Inl TokenExpiredError
            else Inr \<lparr>userId = uid, iat = issued, expires = issued + ttl\<rparr>)"
proof -
  let ?c = "\<lparr>userId = uid, iat = issued, expires = issued + ttl\<rparr>"
  have h: "CHR ''.'' \<notin> set jwt_header" by (simp add: jwt_header_def)
  have "split_on (CHR ''.'') (jwt_sign mac issued uid secret ttl)
          = [jwt_header, encode_claims ?c, mac secret (signing_input ?c)]"
    using split_on_first[OF h, of "encode_claims ?c @ CHR ''.'' # mac secret (signing_input ?c)"]
          split_on_first[OF encode_claims_no_dot, of ?c "mac secret (signing_input ?c)"]
          split_on_none[OF assms, of "signing_input ?c"]
    by (simp add: jwt_sign_def signing_input_def Let_def)
  then show ?thesis
    by (simp add: jwt_verify_def decode_encode_claims signing_input_def)
qed

lemma jwt_verify_tampered:
  assumes "sg \<noteq> mac secret (signing_input c)"
  shows "jwt_verify mac now (signing_input c @ ''.'' @ sg) secret = Inl JsonWebTokenError"
proof -
  have h: "CHR ''.'' \<notin> set jwt_header" by (simp add: jwt_header_def)
  have s: "split_on (CHR ''.'') (signing_input c @ ''.'' @ sg)
          = jwt_header # encode_claims c # split_on (CHR ''.'') sg"
    using split_on_first[OF h, of "encode_claims c @ CHR ''.'' # sg"]
          split_on_first[OF encode_claims_no_dot, of c sg]
    by (simp add: signing_input_def)
  show ?thesis
  proof (cases "CHR ''.'' \<in> set sg")
    case False
    then show ?thesis using assms unfolding jwt_verify_def s
      by (simp add: split_on_none decode_encode_claims signing_input_def)
  next
    case True
    then obtain a b where "sg = a @ CHR ''.'' # b" "CHR ''.'' \<notin> set a"
      by (meson split_list_first)
    then have "split_on (CHR ''.'') sg = a # split_on (CHR ''.'') b"
      by (simp add: split_on_first)
    moreover have "split_on (CHR ''.'') b \<noteq> []" by (cases b) (auto split: list.splits)
    ultimately show ?thesis unfolding jwt_verify_def s
      by (auto split: list.splits)
  qed
qed

lemma example_mac_no_dot: "CHR ''.'' \<notin> set (example_mac key m)"
  by (auto simp: example_mac_def is_alnum_def is_alpha_def is_upper_def is_lower_def is_digit_def)

lemma example_verify_token:
  "example_verify example_token = Some \<lparr>userId = 5, iat = 900, expires = 87300\<rparr>"
  by (simp add: example_verify_def example_token_def verifyToken_def generateToken_def
        jwt_verify_sign[where mac = example_mac and secret = "''secret''", OF example_mac_no_dot])

text \<open>
  Claim C9.  A token issued for a user and verified before its expiry, 24 hours after it
  was issued, gives that user back; verified at or after its expiry it gives the invalid
  result; the same token with any other signature gives the invalid result; and
  whatever the library's verification throws, \<open>verifyToken\<close> returns the invalid result
  instead.  The keyed function is arbitrary, its output free of the separator as the
  encoded signature of a token is.
\<close>

theorem token_round_trip:
  assumes "\<And>m. CHR ''.'' \<notin> set (mac secret m)"
  shows "(now < issued + 24 * 3600 \<longrightarrow>
            verifyToken mac secret now (generateToken mac secret issued uid)
              = Some \<lparr>userId = uid, iat = issued, expires = issued + 24 * 3600\<rparr>)
       \<and> (issued + 24 * 3600 \<le> now \<longrightarrow>
            verifyToken mac secret now (generateToken mac secret issued uid) = None)
       \<and> generateToken mac secret issued uid
            = signing_input \<lparr>userId = uid, iat = issued, expires = issued + 24 * 3600\<rparr> @ ''.''
              @ mac secret (signing_input \<lparr>userId = uid, iat = issued, expires = issued + 24 * 3600\<rparr>)
       \<and> (sg \<noteq> mac secret (signing_input \<lparr>userId = uid, iat = issued, expires = issued + 24 * 3600\<rparr>) \<longrightarrow>
            verifyToken mac secret now
              (signing_input \<lparr>userId = uid, iat = issued, expires = issued + 24 * 3600\<rparr> @ ''.'' @ sg)
              = None)
       \<and> (jwt_verify mac now token secret = Inl e \<longrightarrow> verifyToken mac secret now token = None)"
proof (intro conjI impI)
  assume "now < issued + 24 * 3600"
  then show "verifyToken mac secret now (generateToken mac secret issued uid)
              = Some \<lparr>userId = uid, iat = issued, expires = issued + 24 * 3600\<rparr>"
    by (simp add: verifyToken_def generateToken_def jwt_verify_sign[where mac = mac and secret = secret, OF assms])
next
  assume "issued + 24 * 3600 \<le> now"
  then show "verifyToken mac secret now (generateToken mac secret issued uid) = None"
    by (simp add: verifyToken_def generateToken_def jwt_verify_sign[where mac = mac and secret = secret, OF assms])
next
  show "generateToken mac secret issued uid
            = signing_input \<lparr>userId = uid, iat = issued, expires = issued + 24 * 3600\<rparr> @ ''.''
              @ mac secret (signing_input \<lparr>userId = uid, iat = issued, expires = issued + 24 * 3600\<rparr>)"
    by (simp add: generateToken_def jwt_sign_def Let_def)
next
  assume other: "sg \<noteq> mac secret (signing_input \<lparr>userId = uid, iat = issued, expires = issued + 24 * 3600\<rparr>)"
  show "verifyToken mac secret now
              (signing_input \<lparr>userId = uid, iat = issued, expires = issued + 24 * 3600\<rparr> @ ''.'' @ sg)
              = None"
    unfolding verifyToken_def jwt_verify_tampered[where mac = mac and secret = secret, OF other] by simp
next
  assume "jwt_verify mac now token secret = Inl e"
  then show "verifyToken mac secret now token = None"
    by (simp add: verifyToken_def)
qed

theorem token_round_trip_witness:
  "verifyToken example_mac ''secret'' 1000 (generateToken example_mac ''secret'' 900 5)
     = Some \<lparr>userId = 5, iat = 900, expires = 87300\<rparr>
   \<and> verifyToken example_mac ''secret'' 87300 (generateToken example_mac ''secret'' 900 5) = None
   \<and> verifyToken example_mac ''secret'' 1000
       (signing_input \<lparr>userId = 5, iat = 900, expires = 87300\<rparr> @ ''.'' @ ''forged'') = None
   \<and> verifyToken example_mac ''secret'' 1000 ''no token at all'' = None"
proof -
  have forged: "''forged'' \<noteq> example_mac ''secret'' (signing_input \<lparr>userId = 5, iat = 900, expires = 900 + 24 * 3600\<rparr>)"
    by (simp add: example_mac_def is_alnum_def is_alpha_def is_lower_def)
  have thrown: "jwt_verify example_mac 1000 ''no token at all'' ''secret'' = Inl JsonWebTokenError"
    by (simp add: jwt_verify_def)
  note t1 = token_round_trip[where mac = example_mac and secret = "''secret''" and now = 1000
            and issued = 900 and uid = 5 and sg = "''forged''" and token = "''no token at all''"
            and e = JsonWebTokenError, OF example_mac_no_dot]
  note t2 = token_round_trip[where mac = example_mac and secret = "''secret''" and now = 87300
            and issued = 900 and uid = 5 and sg = "''forged''" and token = "''no token at all''"
            and e = JsonWebTokenError, OF example_mac_no_dot]
  have a: "verifyToken example_mac ''secret'' 1000 (generateToken example_mac ''secret'' 900 5)
             = Some \<lparr>userId = 5, iat = 900, expires = 87300\<rparr>"
    using t1[THEN conjunct1] by simp
  have b: "verifyToken example_mac ''secret'' 87300 (generateToken example_mac ''secret'' 900 5) = None"
    using t2[THEN conjunct2, THEN conjunct1] by simp
  have c: "verifyToken example_mac ''secret'' 1000
             (signing_input \<lparr>userId = 5, iat = 900, expires = 87300\<rparr> @ ''.'' @ ''forged'') = None"
    using t1[THEN conjunct2, THEN conjunct2, THEN conjunct2, THEN conjunct1] forged by simp
  have d: "verifyToken example_mac ''secret'' 1000 ''no token at all'' = None"
    using t1[THEN conjunct2, THEN conjunct2, THEN conjunct2, THEN conjunct2] thrown by simp
  show ?thesis using a b c d by simp
qed

subsection \<open>Rounding to binary64\<close>

declare bit_length.simps [simp del]

lemma bit_length_bound: "n < 2 ^ k \<Longrightarrow> bit_length n \<le> k"
proof (induction n arbitrary: k rule: bit_length.induct)
  case (1 n)
  show ?case
  proof (cases "n = 0")
    case True
    then show ?thesis by (simp add: bit_length.simps)
  next
    case False
    with 1(2) obtain j where k: "k = Suc j" by (cases k) auto
    with 1(2) have "n div 2 < 2 ^ j" by auto
    with 1(1)[OF False] have "bit_length (n div 2) \<le> j" by simp
    with False k show ?thesis by (subst bit_length.simps) simp
  qed
qed

lemma bit_length_examples:
  "bit_length 7 = 3" "bit_length 2 = 2" "bit_length 9007199254740993 = 54"
  "bit_length (Suc 0) = 1"
  by (simp_all add: bit_length.simps)

lemma pow2_nonpos: "e \<le> 0 \<Longrightarrow> pow2 e = 1 / 2 ^ nat (- e)"
  by (cases "e = 0") (simp_all add: pow2_def)

lemma round_half_even_int: "round_half_even (of_int x) = x"
  by (simp add: round_half_even_def)

lemma binade_nat:
  assumes "n < 2 ^ 53"
  shows "binade (of_nat n) \<le> 52"
proof -
  have q: "quotient_of (of_nat n :: rat) = (int n, 1)"
    using quotient_of_int[of "int n"] by simp
  have "bit_length n \<le> 53" using assms by (rule bit_length_bound)
  then show ?thesis
    by (simp add: binade_def q bit_length_examples Let_def)
qed

text \<open>A natural number below \<open>2^53\<close> is a binary64 number: rounding leaves it alone.\<close>

lemma round_magnitude_nat:
  assumes "n < 2 ^ 53"
  shows "round_magnitude (of_nat n) = Fin (of_nat n)"
proof (cases "n = 0")
  case True
  then show ?thesis by (simp add: round_magnitude_def)
next
  case False
  define e where "e = max (binade (of_nat n) - 52) (- 1074)"
  define j where "j = nat (- e)"
  have e: "e \<le> 0" using binade_nat[OF assms] by (simp add: e_def)
  then have p: "pow2 e = 1 / 2 ^ j" by (simp add: pow2_nonpos j_def)
  have "(of_nat n :: rat) / pow2 e = of_int (int n * 2 ^ j)" by (simp add: p)
  then have m: "round_half_even (of_nat n / pow2 e) = int n * 2 ^ j"
    by (simp only: round_half_even_int)
  have r: "of_int (int n * 2 ^ j) * pow2 e = (of_nat n :: rat)" by (simp add: p)
  have "(of_nat n :: rat) < 2 ^ 53"
    using assms by (metis of_nat_less_iff of_nat_numeral of_nat_power)
  moreover have "(2 :: rat) ^ 53 \<le> 2 ^ 1024" by (rule power_increasing) simp_all
  ultimately have b: "\<not> pow2 1024 \<le> (of_nat n :: rat)" by (simp add: pow2_def)
  show ?thesis
    using False b unfolding round_magnitude_def Let_def e_def[symmetric] m r by simp
qed

lemma to_double_nat: "n < 2 ^ 53 \<Longrightarrow> to_double (of_nat n) = Fin (of_nat n)"
  by (simp add: to_double_def round_magnitude_nat)

lemma to_double_int:
  assumes "\<bar>i\<bar> < 2 ^ 53"
  shows "to_double (of_int i) = Fin (of_int i)"
proof (cases "i < 0")
  case True
  then have "nat (- i) < 2 ^ 53" using assms by (simp add: nat_less_iff)
  then have "round_magnitude (of_nat (nat (- i))) = Fin (of_nat (nat (- i)))"
    by (rule round_magnitude_nat)
  moreover have "(of_nat (nat (- i)) :: rat) = - of_int i" using True by simp
  ultimately show ?thesis using True by (simp add: to_double_def negate_def)
next
  case False
  then have "nat i < 2 ^ 53" using assms by (simp add: nat_less_iff)
  then have "round_magnitude (of_nat (nat i)) = Fin (of_nat (nat i))"
    by (rule round_magnitude_nat)
  moreover have "(of_nat (nat i) :: rat) = of_int i" using False by simp
  ultimately show ?thesis using False by (simp add: to_double_def)
qed

lemma Number_of_value:
  assumes "StringNumericValue s = Fin (of_int i)" "\<bar>i\<bar> < 2 ^ 53"
  shows "Number s = Fin (of_int i)"
  using assms by (simp add: Number_def to_double_int)

lemma round_magnitude_eq:
  assumes "q \<noteq> 0" "binade q = b" "max (b - 52) (- 1074) = e"
    and "round_half_even (q / pow2 e) = m" "\<not> pow2 1024 \<le> of_int m * pow2 e"
  shows "round_magnitude q = Fin (of_int m * pow2 e)"
  using assms by (simp add: round_magnitude_def Let_def)

text \<open>\<open>3.5\<close> is a binary64 number.\<close>

lemma to_double_7_2: "to_double (7 / 2) = Fin (7 / 2)"
proof -
  have f: "Fract 7 2 = (7 / 2 :: rat)" by (simp add: Fract_of_int_quotient)
  have q: "quotient_of (7 / 2 :: rat) = (7, 2)"
    unfolding f[symmetric] by (simp add: quotient_of_Fract Rat.normalize_def)
  have "round_magnitude (7 / 2) = Fin (of_int 7881299347898368 * pow2 (- 51))"
  proof (rule round_magnitude_eq[where b = 1])
    show "(7 / 2 :: rat) \<noteq> 0" by simp
    show "binade (7 / 2) = 1" by (simp add: binade_def q bit_length_examples pow2_def)
    show "max (1 - 52) (- 1074) = (- 51 :: int)" by simp
    show "round_half_even (7 / 2 / pow2 (- 51)) = 7881299347898368"
      by (simp add: pow2_def round_half_even_def)
    show "\<not> pow2 1024 \<le> of_int 7881299347898368 * pow2 (- 51)" by (simp add: pow2_def)
  qed
  then show ?thesis by (simp add: to_double_def pow2_def)
qed

text \<open>\<open>2^53 + 1\<close> lies halfway between two binary64 numbers and goes to the even one,
  \<open>2^53\<close>.\<close>

lemma to_double_tie: "to_double 9007199254740993 = Fin 9007199254740992"
proof -
  have "round_magnitude 9007199254740993 = Fin (of_int 4503599627370496 * pow2 1)"
  proof (rule round_magnitude_eq[where b = 53])
    show "(9007199254740993 :: rat) \<noteq> 0" by simp
    show "binade 9007199254740993 = 53" by (simp add: binade_def bit_length_examples pow2_def)
    show "max (53 - 52) (- 1074) = (1 :: int)" by simp
    have f: "\<lfloor>9007199254740993 / 2 :: rat\<rfloor> = 4503599627370496"
      by (simp add: floor_unique)
    show "round_half_even (9007199254740993 / pow2 1) = 4503599627370496"
      by (simp add: round_half_even_def pow2_def f)
    show "\<not> pow2 1024 \<le> of_int 4503599627370496 * pow2 1" by (simp add: pow2_def)
  qed
  then show ?thesis by (simp add: to_double_def pow2_def)
qed

subsection \<open>Validators\<close>

lemma validated_Next: "validated issues req = Next r \<longleftrightarrow> issues = [] \<and> r = req"
  by (auto simp: validated_def)

lemma validated_cases:
  "validated issues req = Next req
   \<or> (issues \<noteq> [] \<and> validated issues req = Reply (validation_failed issues))"
  by (simp add: validated_def)

lemma loginSchema_accepts:
  "loginSchema is_email v = [] \<longleftrightarrow>
     (\<exists>fs e pw. v = Some (JObj fs) \<and> map_of fs ''email'' = Some (JStr e) \<and> is_email e
        \<and> map_of fs ''password'' = Some (JStr pw))"
  by (auto simp: loginSchema_def z_object_def z_email_def z_string_def
           split: option.splits json.splits)

lemma zod_email_example: "zod_email ''ann@example.org''"
  by code_simp

lemma not_zod_email_example: "\<not> zod_email ''not-an-email''"
  by (simp add: zod_email_def)

text \<open>
  Claim C5, as the code has it.  The login validator accepts exactly the payloads that
  are objects whose \<open>email\<close> is a string in the e-mail format and whose \<open>password\<close> is a
  string, the empty string included; every other payload is answered with 400 and a
  non-empty list of messages.  No rule on the password's content is applied.  This holds
  for every e-mail format test.
\<close>

theorem validateLogin_accepts_iff:
  "(validateLogin is_email req = Next req \<longleftrightarrow>
      (\<exists>fs e pw. body req = Some (JObj fs) \<and> map_of fs ''email'' = Some (JStr e) \<and> is_email e
         \<and> map_of fs ''password'' = Some (JStr pw)))
   \<and> (validateLogin is_email req = Next req
        \<or> (\<exists>issues. issues \<noteq> [] \<and> validateLogin is_email req = Reply (validation_failed issues)))"
proof -
  have "validateLogin is_email req = Next req \<longleftrightarrow> loginSchema is_email (body req) = []"
    by (simp add: validateLogin_def validated_Next)
  moreover have "validateLogin is_email req = Next req
        \<or> (\<exists>issues. issues \<noteq> [] \<and> validateLogin is_email req = Reply (validation_failed issues))"
    unfolding validateLogin_def
    using validated_cases[of "loginSchema is_email (body req)" req] by blast
  ultimately show ?thesis
    by (simp only: loginSchema_accepts)
qed

theorem validateLogin_accepts_iff_witness:
  "validateLogin zod_email
     (example_request None [] (Some (JObj [(''email'', JStr ''ann@example.org''), (''password'', JStr ''pw'')])))
   = Next (example_request None [] (Some (JObj [(''email'', JStr ''ann@example.org''), (''password'', JStr ''pw'')])))"
  using validateLogin_accepts_iff[of zod_email
          "example_request None [] (Some (JObj [(''email'', JStr ''ann@example.org''), (''password'', JStr ''pw'')]))"]
        zod_email_example
  by (simp add: example_request_def)

text \<open>The claim as written fails: a login payload with a valid e-mail address and the
  empty password is accepted.\<close>

theorem validateLogin_empty_password:
  "validateLogin zod_email
     (example_request None [] (Some (JObj [(''email'', JStr ''ann@example.org''), (''password'', JStr '''')])))
   = Next (example_request None [] (Some (JObj [(''email'', JStr ''ann@example.org''), (''password'', JStr '''')])))"
  by (simp add: validateLogin_def validated_def loginSchema_def z_object_def z_email_def
        z_string_def example_request_def zod_email_example)

text \<open>
  Claim C2, at the input where the code departs from it.  The payload with username
  \<open>ann\<close> and e-mail \<open>not-an-email\<close> does not have the e-mail format; the
  required-user-data validator rejects it with the e-mail message, and the
  partial-user-data validator, whose \<open>email\<close> is any string, accepts it.
\<close>

theorem validatePartialUserData_email_unchecked:
  "\<not> zod_email ''not-an-email''
   \<and> validateRequiredUserData zod_email
        (example_request None [] (Some (JObj [(''username'', JStr ''ann''), (''email'', JStr ''not-an-email'')])))
       = Reply (validation_failed [''Email must be a valid email''])
   \<and> validatePartialUserData
        (example_request None [] (Some (JObj [(''username'', JStr ''ann''), (''email'', JStr ''not-an-email'')])))
       = Next (example_request None [] (Some (JObj [(''username'', JStr ''ann''), (''email'', JStr ''not-an-email'')])))"
  by (simp add: validateRequiredUserData_def validatePartialUserData_def validated_def
        requiredUserDataSchema_def partialUserDataSchema_def z_object_def z_email_def
        z_optional_def z_string_min_max_def z_string_msg_def example_request_def
        not_zod_email_example)

subsection \<open>Handlers on the example pool\<close>

lemma example_request_fields:
  "authorization (example_request header ident payload) = header"
  "param_id (example_request header ident payload) = ident"
  "body (example_request header ident payload) = payload"
  "user (example_request header ident payload) = None"
  by (simp_all add: example_request_def)

lemma example_payload_valid:
  "requiredUserDataSchema zod_email example_payload = []"
  "partialUserDataSchema example_payload = []"
  by (simp_all add: example_payload_def requiredUserDataSchema_def partialUserDataSchema_def
        z_object_def z_string_min_max_def z_email_def z_optional_def z_string_msg_def
        zod_email_example)

lemma Number_example: "Number ''5'' = Fin 5"
proof -
  have "StringNumericValue ''5'' = Fin 5" by code_simp
  then show ?thesis using Number_of_value[of "''5''" 5] by simp
qed

lemma userIdSchema_example: "userIdSchema ''5'' = []"
  by code_simp

text \<open>
  Claim C1, at the input where the code departs from it.  \<open>POST /users\<close> answers 201 with
  the id, the username and the e-mail address only.  For the stored user of the example
  pool, whose row has a password hash, \<open>GET /users\<close> and \<open>GET /users/5\<close> answer with
  every column of the row, the hash among them.
\<close>

theorem get_users_returns_password:
  "fst (post_users_route zod_email example_pool (example_request None [] example_payload))
     = Responded (reply 201 (JObj [(''id'', JNum 6), (''username'', JStr ''ann''),
                                   (''email'', JStr ''ann@example.org'')]))
   \<and> fst (get_users example_pool (example_request None [] None))
     = Responded (reply 200 (JArr [JObj [(''id'', JNum 5), (''username'', JStr ''ann''),
                                         (''email'', JStr ''ann@example.org''),
                                         (''password'', JStr ''$2b$10$N9qo8uLOickgx2ZMRZoMye'')]]))
   \<and> fst (get_user_route example_pool (example_request None ''5'' None))
     = Responded (reply 200 (JObj [(''id'', JNum 5), (''username'', JStr ''ann''),
                                   (''email'', JStr ''ann@example.org''),
                                   (''password'', JStr ''$2b$10$N9qo8uLOickgx2ZMRZoMye'')]))"
  by (simp add: post_users_route_def post_users_def validateRequiredUserData_def
        example_payload_valid[unfolded example_payload_def] example_payload_def
        destructure_def property_def object_of_def
        List.map_filter_simps
        get_users_def get_user_route_def through_def validateUserId_def validated_def
        userIdSchema_example get_user_def Number_example example_request_fields
        example_pool_def storage_defs)

lemma order_desc_sorted:
  "sorted_wrt (\<lambda>a b. created b \<le> created a) (order_desc created rows)"
proof -
  have "sorted (map created (sort_key created rows))" by simp
  then have "sorted_wrt (\<lambda>a b. created a \<le> created b) (sort_key created rows)"
    by (simp add: sorted_map)
  then show ?thesis
    by (simp add: order_desc_def sorted_wrt_rev)
qed

text \<open>
  Claim C3, at the input where the code departs from it.  The user of the example pool
  has a post created at second 100 stored before one created at second 200.
  \<open>GET /users/5/posts-with-user\<close>, whose statement has no \<open>ORDER BY\<close>, answers with the
  older post first; \<open>GET /users/5/posts\<close> and \<open>GET /posts\<close> answer with the newer post
  first.
\<close>

theorem posts_with_user_not_ordered:
  "fst (get_user_posts_with_user example_pool (example_request None ''5'' None))
     = Responded (reply 200 (JArr
         [JObj [(''id'', JNum 1), (''title'', JStr ''first''), (''content'', JStr ''one''),
                (''user_id'', JNum 5), (''created_at'', JNum 100),
                (''username'', JStr ''ann''), (''email'', JStr ''ann@example.org'')],
          JObj [(''id'', JNum 2), (''title'', JStr ''second''), (''content'', JStr ''two''),
                (''user_id'', JNum 5), (''created_at'', JNum 200),
                (''username'', JStr ''ann''), (''email'', JStr ''ann@example.org'')]]))
   \<and> fst (get_user_posts example_pool (example_request None ''5'' None))
     = Responded (reply 200 (JArr
         [JObj [(''id'', JNum 2), (''title'', JStr ''second''), (''content'', JStr ''two''),
                (''user_id'', JNum 5), (''created_at'', JNum 200)],
          JObj [(''id'', JNum 1), (''title'', JStr ''first''), (''content'', JStr ''one''),
                (''user_id'', JNum 5), (''created_at'', JNum 100)]]))
   \<and> fst (get_posts example_pool (example_request None [] None))
     = Responded (reply 200 (JArr
         [JObj [(''id'', JNum 2), (''title'', JStr ''second''), (''content'', JStr ''two''),
                (''user_id'', JNum 5), (''created_at'', JNum 200),
                (''username'', JStr ''ann''), (''email'', JStr ''ann@example.org'')],
          JObj [(''id'', JNum 1), (''title'', JStr ''first''), (''content'', JStr ''one''),
                (''user_id'', JNum 5), (''created_at'', JNum 100),
                (''username'', JStr ''ann''), (''email'', JStr ''ann@example.org'')]]))"
  by (simp add: get_user_posts_with_user_def get_user_posts_def get_posts_def isNaN_def
        Number_example example_request_def example_pool_def storage_defs)

text \<open>
  Claim C6, at the input where the code departs from it.  With the storage out of reach,
  the rejection of \<open>pool.execute\<close> leaves the handler of \<open>GET /users/5/posts-with-user\<close>
  uncaught: the handler maps it to no response.  The handler of \<open>GET /users/5/posts\<close>
  catches it and answers 500.
\<close>

theorem posts_with_user_failure_escapes:
  "fst (get_user_posts_with_user (example_pool\<lparr>available := False\<rparr>) (example_request None ''5'' None))
     = Escaped Connection_error
   \<and> fst (get_user_posts (example_pool\<lparr>available := False\<rparr>) (example_request None ''5'' None))
     = Responded (reply 500 (JObj [(''error'', JStr ''Failed to fetch user posts'')]))"
  by (simp add: get_user_posts_with_user_def get_user_posts_def isNaN_def Number_example
        example_request_def example_pool_def storage_defs)

lemma authenticate_example:
  "authenticateToken example_verify (example_request (Some (''Bearer '' @ example_token)) ident payload)
     = Next (example_request (Some (''Bearer '' @ example_token)) ident payload\<lparr>user := Some 5\<rparr>)"
  by (simp add: authenticateToken_def example_request_def example_verify_token)

text \<open>
  Claim C4, at the input where the code departs from it.  \<open>PATCH /users/5\<close> with the token
  of user 5 and the payload \<open>{}\<close>: the partial-update validator accepts the payload, the
  handler hands the storage an \<open>UPDATE\<close> with an empty \<open>SET\<close> list, the storage rejects
  it, and the request ends in the error path with 500.  The stored users are unchanged.
\<close>

theorem patch_empty_payload_fails:
  "validatePartialUserData (example_request (Some (''Bearer '' @ example_token)) ''5'' (Some (JObj [])))
     = Next (example_request (Some (''Bearer '' @ example_token)) ''5'' (Some (JObj [])))
   \<and> fst (patch_user_route example_verify example_pool
             (example_request (Some (''Bearer '' @ example_token)) ''5'' (Some (JObj []))))
     = Responded (reply 500 (JObj [(''message'', JStr ''Internal server error'')]))
   \<and> executed (snd (patch_user_route example_verify example_pool
             (example_request (Some (''Bearer '' @ example_token)) ''5'' (Some (JObj [])))))
     = [Update (UpdateUserSet [] (Fin 5))]
   \<and> users (snd (patch_user_route example_verify example_pool
             (example_request (Some (''Bearer '' @ example_token)) ''5'' (Some (JObj [])))))
     = users example_pool"
proof -
  have v: "validatePartialUserData r = Next r" if "body r = Some (JObj [])" for r
    using that by (simp add: validatePartialUserData_def validated_def partialUserDataSchema_def
          z_object_def z_optional_def)
  have i: "validateUserId r = Next r" if "param_id r = ''5''" for r
    using that by (simp add: validateUserId_def validated_def userIdSchema_example)
  have h: "patch_user example_pool (example_request header ''5'' (Some (JObj []))\<lparr>user := Some 5\<rparr>)
           = (Responded internal_error,
              example_pool\<lparr>executed := [Update (UpdateUserSet [] (Fin 5))]\<rparr>)" for header
    by (simp add: patch_user_def Number_example destructure_def property_def truthy_def
          example_request_def example_pool_def execute_update_def apply_update_def)
  have r: "patch_user_route example_verify example_pool
             (example_request (Some (''Bearer '' @ example_token)) ''5'' (Some (JObj [])))
           = (Responded internal_error,
              example_pool\<lparr>executed := [Update (UpdateUserSet [] (Fin 5))]\<rparr>)"
    unfolding patch_user_route_def authenticate_example through_def
    by (simp add: i v h example_request_fields)
  show ?thesis
    unfolding r
    using v[of "example_request (Some (''Bearer '' @ example_token)) ''5'' (Some (JObj []))"]
    by (simp add: internal_error_def example_request_fields)
qed

subsection \<open>The trace of executed statements\<close>

lemma apply_update_executed:
  "apply_update q d = Inr (h, d') \<Longrightarrow> executed d' = executed d"
  by (cases q) (auto simp: apply_update_def split: option.splits if_splits)

lemma execute_update_executed:
  "executed (snd (execute_update q db)) = executed db @ [Update q]"
  by (auto simp: execute_update_def Let_def split: sum.splits dest: apply_update_executed)

lemma execute_query_executed:
  "executed (snd (execute_query q db)) = executed db @ [Query q]"
  by (simp add: execute_query_def Let_def)

subsection \<open>\<open>Number\<close> on the strings the user-id validator accepts\<close>

lemma digit_facts:
  "is_digit c \<Longrightarrow> \<not> is_ws c \<and> c \<noteq> CHR ''+'' \<and> c \<noteq> CHR ''-'' \<and> c \<noteq> CHR ''I''
     \<and> c \<noteq> CHR ''x'' \<and> c \<noteq> CHR ''X'' \<and> c \<noteq> CHR ''o'' \<and> c \<noteq> CHR ''O''
     \<and> c \<noteq> CHR ''b'' \<and> c \<noteq> CHR ''B''"
  by (auto simp: is_digit_def is_ws_def)

lemma trim_digits:
  assumes "s \<noteq> []" "list_all is_digit s"
  shows "trim s = s"
proof -
  from assms obtain c t where s: "s = c # t" by (cases s) auto
  with assms have "\<not> is_ws c" using digit_facts by auto
  then have 1: "dropWhile is_ws s = s" by (simp add: s)
  from assms obtain z r where r: "rev s = z # r" by (cases "rev s") auto
  then have "z \<in> set s" by (metis list.set_intros(1) set_rev)
  with assms have "\<not> is_ws z" using digit_facts by (auto simp: list_all_iff)
  then have "dropWhile is_ws (rev s) = rev s" by (simp add: r)
  with 1 show ?thesis by (simp add: trim_def)
qed

lemma non_decimal_digits:
  assumes "list_all is_digit s"
  shows "non_decimal_literal s = None"
proof (cases s)
  case Nil
  then show ?thesis by (simp add: non_decimal_literal_def)
next
  case (Cons z t)
  show ?thesis
  proof (cases t)
    case Nil
    with Cons show ?thesis by (simp add: non_decimal_literal_def)
  next
    case (Cons p ds)
    with assms \<open>s = z # t\<close> have "is_digit p" by simp
    then show ?thesis using digit_facts[of p] Cons \<open>s = z # t\<close>
      by (simp add: non_decimal_literal_def)
  qed
qed

lemma unsigned_decimal_digits:
  assumes "s \<noteq> []" "list_all is_digit s"
  shows "unsigned_decimal s = Some (of_nat (radix_value 10 s))"
proof -
  have tw: "takeWhile is_digit s = s" and dw: "dropWhile is_digit s = []"
    using assms by (auto simp: list_all_iff)
  show ?thesis unfolding unsigned_decimal_def tw dw using assms(1)
    by (simp add: exponent_part_def pow10_def Let_def)
qed

lemma StringNumericValue_digits:
  assumes "s \<noteq> []" "list_all is_digit s"
  shows "StringNumericValue s = Fin (of_nat (radix_value 10 s))"
proof -
  from assms obtain c t where s: "s = c # t" by (cases s) auto
  with assms have c: "is_digit c" by simp
  have "s \<noteq> ''Infinity''" using c digit_facts[of c] s by auto
  then have "unsigned_literal s = Fin (of_nat (radix_value 10 s))"
    by (simp add: unsigned_literal_def unsigned_decimal_digits[OF assms])
  then have "str_decimal_literal s = Fin (of_nat (radix_value 10 s))"
    using c digit_facts[of c] by (simp add: str_decimal_literal_def s)
  then show ?thesis
    using assms by (simp add: StringNumericValue_def trim_digits non_decimal_digits)
qed

lemma userIdSchema_accepts: "userIdSchema s = [] \<longleftrightarrow> s \<noteq> [] \<and> list_all is_digit s"
  by (simp add: userIdSchema_def z_digits_def)

text \<open>A path id that the validator accepts converts to the rounded value of its
  decimal digits; below \<open>2^53\<close> that is the value itself.\<close>

lemma Number_digits:
  "userIdSchema s = [] \<Longrightarrow> Number s = to_double (of_nat (radix_value 10 s))"
  by (simp add: userIdSchema_accepts Number_def StringNumericValue_digits)

lemma Number_validated:
  "userIdSchema s = [] \<Longrightarrow> radix_value 10 s < 2 ^ 53 \<Longrightarrow>
   Number s = Fin (of_nat (radix_value 10 s))"
  by (simp add: Number_digits to_double_nat)

subsection \<open>Authentication\<close>

lemma starts_with_Bearer: "take 7 h = ''Bearer '' \<longleftrightarrow> (\<exists>t. h = ''Bearer '' @ t)"
proof
  assume "take 7 h = ''Bearer ''"
  then have "h = ''Bearer '' @ drop 7 h" by (metis append_take_drop_id)
  then show "\<exists>t. h = ''Bearer '' @ t" ..
next
  assume "\<exists>t. h = ''Bearer '' @ t"
  then show "take 7 h = ''Bearer ''" by auto
qed

lemma authenticateToken_Bearer:
  "authorization req = Some (''Bearer '' @ t) \<Longrightarrow>
   authenticateToken verify req =
     (case verify t of
        None \<Rightarrow> Reply (reply 403 (JObj [(''error'', JStr ''Invalid or expired token'')]))
      | Some p \<Rightarrow> Next (req\<lparr>user := Some (userId p)\<rparr>))"
  by (simp add: authenticateToken_def)

text \<open>
  Claim C8, as the code has it.  The authentication middleware has four outcomes: a
  missing or empty Authorization header is answered 401 "Access token required"; a
  non-empty header that does not start with \<open>Bearer \<close> is answered 401 "Token must be in
  format: Bearer <token>"; a header whose text after the seven characters of the prefix
  fails verification is answered 403 "Invalid or expired token"; otherwise the verified
  user id is attached to the request and the next stage runs.  The three failures answer
  at once.
\<close>

theorem authenticateToken_outcomes:
  "(authorization req = None \<or> authorization req = Some [] \<longrightarrow>
      authenticateToken verify req = Reply (reply 401 (JObj [(''error'', JStr ''Access token required'')])))
   \<and> (authorization req = Some h \<and> h \<noteq> [] \<and> (\<forall>t. h \<noteq> ''Bearer '' @ t) \<longrightarrow>
      authenticateToken verify req
        = Reply (reply 401 (JObj [(''error'', JStr ''Token must be in format: Bearer <token>'')])))
   \<and> (authorization req = Some (''Bearer '' @ token) \<and> verify token = None \<longrightarrow>
      authenticateToken verify req
        = Reply (reply 403 (JObj [(''error'', JStr ''Invalid or expired token'')])))
   \<and> (authorization req = Some (''Bearer '' @ token) \<and> verify token = Some p \<longrightarrow>
      authenticateToken verify req = Next (req\<lparr>user := Some (userId p)\<rparr>))"
proof (intro conjI impI)
  assume "authorization req = None \<or> authorization req = Some []"
  then show "authenticateToken verify req
               = Reply (reply 401 (JObj [(''error'', JStr ''Access token required'')]))"
    by (auto simp: authenticateToken_def unauthorized_def)
next
  assume a: "authorization req = Some h \<and> h \<noteq> [] \<and> (\<forall>t. h \<noteq> ''Bearer '' @ t)"
  then have "take 7 h \<noteq> ''Bearer ''" using starts_with_Bearer[of h] by blast
  with a show "authenticateToken verify req
        = Reply (reply 401 (JObj [(''error'', JStr ''Token must be in format: Bearer <token>'')]))"
    by (simp add: authenticateToken_def unauthorized_def)
next
  assume "authorization req = Some (''Bearer '' @ token) \<and> verify token = None"
  then show "authenticateToken verify req
        = Reply (reply 403 (JObj [(''error'', JStr ''Invalid or expired token'')]))"
    by (simp add: authenticateToken_Bearer)
next
  assume "authorization req = Some (''Bearer '' @ token) \<and> verify token = Some p"
  then show "authenticateToken verify req = Next (req\<lparr>user := Some (userId p)\<rparr>)"
    by (simp add: authenticateToken_Bearer)
qed

theorem authenticateToken_outcomes_witness:
  "authenticateToken example_verify (example_request None ''5'' None)
     = Reply (reply 401 (JObj [(''error'', JStr ''Access token required'')]))
   \<and> authenticateToken example_verify (example_request (Some ''Basic YW5uOnB3'') ''5'' None)
     = Reply (reply 401 (JObj [(''error'', JStr ''Token must be in format: Bearer <token>'')]))
   \<and> authenticateToken example_verify (example_request (Some (''Bearer '' @ ''garbage'')) ''5'' None)
     = Reply (reply 403 (JObj [(''error'', JStr ''Invalid or expired token'')]))
   \<and> authenticateToken example_verify (example_request (Some (''Bearer '' @ example_token)) ''5'' None)
     = Next (example_request (Some (''Bearer '' @ example_token)) ''5'' None\<lparr>user := Some 5\<rparr>)"
proof -
  have g: "example_verify ''garbage'' = None"
    by (simp add: example_verify_def verifyToken_def jwt_verify_def)
  have a: "authenticateToken example_verify (example_request None ''5'' None)
     = Reply (reply 401 (JObj [(''error'', JStr ''Access token required'')]))"
    using authenticateToken_outcomes[of "example_request None ''5'' None" example_verify,
            THEN conjunct1]
    by (simp add: example_request_fields)
  have b: "authenticateToken example_verify (example_request (Some ''Basic YW5uOnB3'') ''5'' None)
     = Reply (reply 401 (JObj [(''error'', JStr ''Token must be in format: Bearer <token>'')]))"
    using authenticateToken_outcomes[of "example_request (Some ''Basic YW5uOnB3'') ''5'' None"
            example_verify "''Basic YW5uOnB3''", THEN conjunct2, THEN conjunct1]
    by (simp add: example_request_fields)
  have c: "authenticateToken example_verify (example_request (Some (''Bearer '' @ ''garbage'')) ''5'' None)
     = Reply (reply 403 (JObj [(''error'', JStr ''Invalid or expired token'')]))"
    using authenticateToken_outcomes[of "example_request (Some (''Bearer '' @ ''garbage'')) ''5'' None"
            example_verify _ "''garbage''", THEN conjunct2, THEN conjunct2, THEN conjunct1] g
    by (simp add: example_request_fields)
  have d: "authenticateToken example_verify (example_request (Some (''Bearer '' @ example_token)) ''5'' None)
     = Next (example_request (Some (''Bearer '' @ example_token)) ''5'' None\<lparr>user := Some 5\<rparr>)"
    using authenticateToken_outcomes[of "example_request (Some (''Bearer '' @ example_token)) ''5'' None"
            example_verify _ example_token "\<lparr>userId = 5, iat = 900, expires = 87300\<rparr>",
            THEN conjunct2, THEN conjunct2, THEN conjunct2] example_verify_token
    by (simp add: example_request_fields)
  show ?thesis using a b c d by blast
qed

text \<open>The claim as written fails: an Authorization header that is present and empty does
  not start with \<open>Bearer \<close>, and it is answered "Access token required", not "Token must
  be in format: Bearer <token>".\<close>

theorem authenticateToken_empty_header:
  "authorization (example_request (Some []) ''5'' None) = Some []
   \<and> take 7 ([] :: string) \<noteq> ''Bearer ''
   \<and> authenticateToken example_verify (example_request (Some []) ''5'' None)
       = Reply (reply 401 (JObj [(''error'', JStr ''Access token required'')]))
   \<and> authenticateToken example_verify (example_request (Some []) ''5'' None)
       \<noteq> Reply (reply 401 (JObj [(''error'', JStr ''Token must be in format: Bearer <token>'')]))"
  by (simp add: authenticateToken_def unauthorized_def reply_def example_request_def)

subsection \<open>Mutating routes behind authentication and validation\<close>

lemma required_is_object:
  "requiredUserDataSchema is_email v = [] \<Longrightarrow> \<exists>fs. v = Some (JObj fs)"
  by (auto simp: requiredUserDataSchema_def z_object_def split: option.splits json.splits)

lemma partial_is_object:
  "partialUserDataSchema v = [] \<Longrightarrow> \<exists>fs. v = Some (JObj fs)"
  by (auto simp: partialUserDataSchema_def z_object_def split: option.splits json.splits)

lemma delete_route_authenticated:
  assumes "authorization req = Some (''Bearer '' @ token)" "verify token = Some p"
    and "userIdSchema (param_id req) = []"
  shows "delete_user_route verify db req = delete_user db (req\<lparr>user := Some (userId p)\<rparr>)"
  using assms
  by (simp add: delete_user_route_def authenticateToken_Bearer through_def validateUserId_def
        validated_def)

lemma put_route_authenticated:
  assumes "authorization req = Some (''Bearer '' @ token)" "verify token = Some p"
    and "userIdSchema (param_id req) = []"
    and "requiredUserDataSchema is_email (body req) = []"
  shows "put_user_route verify is_email db req = put_user db (req\<lparr>user := Some (userId p)\<rparr>)"
  using assms
  by (simp add: put_user_route_def authenticateToken_Bearer through_def validateUserId_def
        validateRequiredUserData_def validated_def)

lemma patch_route_authenticated:
  assumes "authorization req = Some (''Bearer '' @ token)" "verify token = Some p"
    and "userIdSchema (param_id req) = []"
    and "partialUserDataSchema (body req) = []"
  shows "patch_user_route verify db req = patch_user db (req\<lparr>user := Some (userId p)\<rparr>)"
  using assms
  by (simp add: patch_user_route_def authenticateToken_Bearer through_def validateUserId_def
        validatePartialUserData_def validated_def)

lemma delete_user_mismatch:
  assumes "user r = Some u" "Number (param_id r) = Fin (of_nat n)" "u \<noteq> n"
  shows "delete_user db r = (Responded forbidden, db)"
  using assms by (simp add: delete_user_def)

lemma put_user_mismatch:
  assumes "user r = Some u" "Number (param_id r) = Fin (of_nat n)" "u \<noteq> n"
    and "body r = Some (JObj fs)"
  shows "put_user db r = (Responded forbidden, db)"
  using assms by (simp add: put_user_def destructure_def)

lemma patch_user_mismatch:
  assumes "user r = Some u" "Number (param_id r) = Fin (of_nat n)" "u \<noteq> n"
    and "body r = Some (JObj fs)"
  shows "patch_user db r = (Responded forbidden, db)"
  using assms by (simp add: patch_user_def destructure_def)

lemma delete_user_match:
  assumes "user r = Some u" "Number (param_id r) = Fin (of_nat u)"
  shows "executed (snd (delete_user db r)) = executed db @ [Update (DeleteUser (Fin (of_nat u)))]"
proof -
  obtain res db1 where e: "execute_update (DeleteUser (Fin (of_nat u))) db = (res, db1)"
    by force
  then have "executed db1 = executed db @ [Update (DeleteUser (Fin (of_nat u)))]"
    using execute_update_executed[of "DeleteUser (Fin (of_nat u))" db] by simp
  then show ?thesis using assms e
    by (simp add: delete_user_def split: sum.splits)
qed

lemma put_user_match:
  assumes "user r = Some u" "Number (param_id r) = Fin (of_nat u)" "body r = Some (JObj fs)"
  shows "executed (snd (put_user db r))
           = executed db @ [Update (UpdateUser (map_of fs ''username'') (map_of fs ''email'')
                                               (Fin (of_nat u)))]"
proof -
  let ?q = "UpdateUser (map_of fs ''username'') (map_of fs ''email'') (Fin (of_nat u))"
  obtain res db1 where e: "execute_update ?q db = (res, db1)"
    by force
  then have "executed db1 = executed db @ [Update ?q]"
    using execute_update_executed[of ?q db] by simp
  then show ?thesis using assms e
    by (simp add: put_user_def destructure_def property_def split: sum.splits)
qed

lemma patch_user_match:
  assumes "user r = Some u" "Number (param_id r) = Fin (of_nat u)" "body r = Some (JObj fs)"
  shows "take (Suc (length (executed db))) (executed (snd (patch_user db r)))
           = executed db
             @ [Update (UpdateUserSet
                          ((if truthy (map_of fs ''username'')
                            then [(Username, map_of fs ''username'')] else [])
                           @ (if truthy (map_of fs ''email'')
                              then [(Email, map_of fs ''email'')] else []))
                          (Fin (of_nat u)))]"
proof -
  let ?q = "UpdateUserSet
              ((if truthy (map_of fs ''username'') then [(Username, map_of fs ''username'')] else [])
               @ (if truthy (map_of fs ''email'') then [(Email, map_of fs ''email'')] else []))
              (Fin (of_nat u))"
  obtain res db1 where e: "execute_update ?q db = (res, db1)"
    by force
  then have 1: "executed db1 = executed db @ [Update ?q]"
    using execute_update_executed[of ?q db] by simp
  obtain rows db2 where s: "execute_query (SelectUserById (Fin (of_nat u))) db1 = (rows, db2)"
    by force
  then have 2: "executed db2 = executed db @ [Update ?q] @ [Query (SelectUserById (Fin (of_nat u)))]"
    using execute_query_executed[of "SelectUserById (Fin (of_nat u))" db1] 1 by simp
  have "snd (patch_user db r) = db1 \<or> snd (patch_user db r) = db2"
    using assms e s
    by (simp add: patch_user_def destructure_def property_def Let_def
          split: sum.splits list.splits)
  then show ?thesis using 1 2 by auto
qed

text \<open>
  Claim C7, as the code has it.  Take a request to \<open>PUT\<close>, \<open>PATCH\<close> or \<open>DELETE /users/:id\<close>
  that carries a bearer token which verifies, whose path id passes the user-id validator
  and denotes a number below \<open>2^53\<close> and, for \<open>PUT\<close> and \<open>PATCH\<close>, whose payload passes
  the route's payload validator.  If the user id of the token differs from the number
  the path id denotes, the answer is 403 with the body
  \<open>{"error": "Users can only update their own account"}\<close> and the pool is as it was: no
  statement has been executed.  If the two are equal, the handler hands its statement to
  the storage: the \<open>DELETE\<close>, the \<open>UPDATE\<close> of both columns, or the \<open>UPDATE\<close> of the
  columns whose values in the payload are truthy, each with that id bound.
\<close>

theorem ownership_check:
  assumes "authorization req = Some (''Bearer '' @ token)" and "verify token = Some p"
    and "userIdSchema (param_id req) = []" and "radix_value 10 (param_id req) < 2 ^ 53"
  shows
    "(userId p \<noteq> radix_value 10 (param_id req) \<longrightarrow>
        delete_user_route verify db req
          = (Responded (reply 403 (JObj [(''error'', JStr ''Users can only update their own account'')])), db)
        \<and> (requiredUserDataSchema is_email (body req) = [] \<longrightarrow>
             put_user_route verify is_email db req
               = (Responded (reply 403 (JObj [(''error'', JStr ''Users can only update their own account'')])), db))
        \<and> (partialUserDataSchema (body req) = [] \<longrightarrow>
             patch_user_route verify db req
               = (Responded (reply 403 (JObj [(''error'', JStr ''Users can only update their own account'')])), db)))
     \<and> (userId p = radix_value 10 (param_id req) \<longrightarrow>
        executed (snd (delete_user_route verify db req))
          = executed db @ [Update (DeleteUser (Fin (of_nat (userId p))))]
        \<and> (requiredUserDataSchema is_email (body req) = [] \<longrightarrow> body req = Some (JObj fs) \<longrightarrow>
             executed (snd (put_user_route verify is_email db req))
               = executed db @ [Update (UpdateUser (map_of fs ''username'') (map_of fs ''email'')
                                                   (Fin (of_nat (userId p))))])
        \<and> (partialUserDataSchema (body req) = [] \<longrightarrow> body req = Some (JObj fs) \<longrightarrow>
             take (Suc (length (executed db))) (executed (snd (patch_user_route verify db req)))
               = executed db
                 @ [Update (UpdateUserSet
                              ((if truthy (map_of fs ''username'')
                                then [(Username, map_of fs ''username'')] else [])
                               @ (if truthy (map_of fs ''email'')
                                  then [(Email, map_of fs ''email'')] else []))
                              (Fin (of_nat (userId p))))]))"
proof -
  let ?r = "req\<lparr>user := Some (userId p)\<rparr>"
  have n: "Number (param_id ?r) = Fin (of_nat (radix_value 10 (param_id req)))"
    using assms(3,4) by (simp add: Number_validated)
  have u: "user ?r = Some (userId p)" by simp
  have f: "forbidden = reply 403 (JObj [(''error'', JStr ''Users can only update their own account'')])"
    by (simp add: forbidden_def)
  note dr = delete_route_authenticated[where verify = verify and token = token and db = db,
              OF assms(1,2,3)]
  note pr = put_route_authenticated[where verify = verify and token = token and db = db
              and is_email = is_email, OF assms(1,2,3)]
  note qr = patch_route_authenticated[where verify = verify and token = token and db = db,
              OF assms(1,2,3)]
  show ?thesis
  proof (intro conjI impI)
    assume d: "userId p \<noteq> radix_value 10 (param_id req)"
    show "delete_user_route verify db req
          = (Responded (reply 403 (JObj [(''error'', JStr ''Users can only update their own account'')])), db)"
      unfolding dr f[symmetric]
      by (rule delete_user_mismatch[OF u n d])
  next
    assume d: "userId p \<noteq> radix_value 10 (param_id req)"
      and v: "requiredUserDataSchema is_email (body req) = []"
    from v obtain fs' where b: "body ?r = Some (JObj fs')"
      using required_is_object by fastforce
    show "put_user_route verify is_email db req
          = (Responded (reply 403 (JObj [(''error'', JStr ''Users can only update their own account'')])), db)"
      unfolding pr[OF v] f[symmetric]
      by (rule put_user_mismatch[OF u n d b])
  next
    assume d: "userId p \<noteq> radix_value 10 (param_id req)"
      and v: "partialUserDataSchema (body req) = []"
    from v obtain fs' where b: "body ?r = Some (JObj fs')"
      using partial_is_object by fastforce
    show "patch_user_route verify db req
          = (Responded (reply 403 (JObj [(''error'', JStr ''Users can only update their own account'')])), db)"
      unfolding qr[OF v] f[symmetric]
      by (rule patch_user_mismatch[OF u n d b])
  next
    assume m: "userId p = radix_value 10 (param_id req)"
    show "executed (snd (delete_user_route verify db req))
          = executed db @ [Update (DeleteUser (Fin (of_nat (userId p))))]"
      unfolding dr
      using delete_user_match[OF u, of db] n m by simp
  next
    assume m: "userId p = radix_value 10 (param_id req)"
      and v: "requiredUserDataSchema is_email (body req) = []"
      and b: "body req = Some (JObj fs)"
    have b': "body ?r = Some (JObj fs)" using b by simp
    show "executed (snd (put_user_route verify is_email db req))
               = executed db @ [Update (UpdateUser (map_of fs ''username'') (map_of fs ''email'')
                                                   (Fin (of_nat (userId p))))]"
      unfolding pr[OF v]
      using put_user_match[OF u _ b', of db] n m by simp
  next
    assume m: "userId p = radix_value 10 (param_id req)"
      and v: "partialUserDataSchema (body req) = []"
      and b: "body req = Some (JObj fs)"
    have b': "body ?r = Some (JObj fs)" using b by simp
    show "take (Suc (length (executed db))) (executed (snd (patch_user_route verify db req)))
               = executed db
                 @ [Update (UpdateUserSet
                              ((if truthy (map_of fs ''username'')
                                then [(Username, map_of fs ''username'')] else [])
                               @ (if truthy (map_of fs ''email'')
                                  then [(Email, map_of fs ''email'')] else []))
                              (Fin (of_nat (userId p))))]"
      unfolding qr[OF v]
      using patch_user_match[OF u _ b', of db] n m by simp
  qed
qed

lemma example_idents:
  "userIdSchema ''7'' = []" "radix_value 10 ''7'' = 7" "radix_value 10 ''5'' = 5"
  "userIdSchema ''9007199254740993'' = []"
  "radix_value 10 ''9007199254740993'' = 9007199254740993"
  by (simp_all add: userIdSchema_def z_digits_def is_digit_def radix_value_def digit_value_def)

lemma example_verify_issued:
  "example_verify (generateToken example_mac ''secret'' 900 uid)
     = Some \<lparr>userId = uid, iat = 900, expires = 87300\<rparr>"
  by (simp add: example_verify_def verifyToken_def generateToken_def
        jwt_verify_sign[where mac = example_mac and secret = "''secret''", OF example_mac_no_dot])

lemma authenticate_issued:
  "authenticateToken example_verify
     (example_request (Some (''Bearer '' @ generateToken example_mac ''secret'' 900 uid)) ident payload)
     = Next (example_request (Some (''Bearer '' @ generateToken example_mac ''secret'' 900 uid))
               ident payload\<lparr>user := Some uid\<rparr>)"
  by (simp add: authenticateToken_def example_request_def example_verify_issued)

theorem ownership_check_witness:
  "delete_user_route example_verify example_pool
       (example_request (Some (''Bearer '' @ example_token)) ''7'' example_payload)
     = (Responded (reply 403 (JObj [(''error'', JStr ''Users can only update their own account'')])),
        example_pool)
   \<and> put_user_route example_verify zod_email example_pool
       (example_request (Some (''Bearer '' @ example_token)) ''7'' example_payload)
     = (Responded (reply 403 (JObj [(''error'', JStr ''Users can only update their own account'')])),
        example_pool)
   \<and> patch_user_route example_verify example_pool
       (example_request (Some (''Bearer '' @ example_token)) ''7'' example_payload)
     = (Responded (reply 403 (JObj [(''error'', JStr ''Users can only update their own account'')])),
        example_pool)
   \<and> executed (snd (delete_user_route example_verify example_pool
       (example_request (Some (''Bearer '' @ example_token)) ''5'' example_payload)))
     = [Update (DeleteUser (Fin 5))]
   \<and> executed (snd (put_user_route example_verify zod_email example_pool
       (example_request (Some (''Bearer '' @ example_token)) ''5'' example_payload)))
     = [Update (UpdateUser (Some (JStr ''ann'')) (Some (JStr ''ann@example.org'')) (Fin 5))]
   \<and> take 1 (executed (snd (patch_user_route example_verify example_pool
       (example_request (Some (''Bearer '' @ example_token)) ''5'' example_payload))))
     = [Update (UpdateUserSet [(Username, Some (JStr ''ann'')), (Email, Some (JStr ''ann@example.org''))]
                              (Fin 5))]"
proof -
  let ?p = "\<lparr>userId = 5, iat = 900, expires = 87300\<rparr>"
  let ?fs = "[(''username'', JStr ''ann''), (''email'', JStr ''ann@example.org'')]"
  have a: "authorization (example_request (Some (''Bearer '' @ example_token)) ident example_payload)
             = Some (''Bearer '' @ example_token)" for ident
    by (simp only: example_request_fields)
  have i7: "userIdSchema (param_id (example_request (Some (''Bearer '' @ example_token)) ''7'' example_payload)) = []"
    by (simp only: example_request_fields example_idents)
  have i5: "userIdSchema (param_id (example_request (Some (''Bearer '' @ example_token)) ''5'' example_payload)) = []"
    by (simp only: example_request_fields userIdSchema_example)
  have b7: "radix_value 10 (param_id (example_request (Some (''Bearer '' @ example_token)) ''7'' example_payload)) < 2 ^ 53"
    by (simp only: example_request_fields example_idents) simp
  have b5: "radix_value 10 (param_id (example_request (Some (''Bearer '' @ example_token)) ''5'' example_payload)) < 2 ^ 53"
    by (simp only: example_request_fields example_idents) simp
  note t7 = ownership_check[where verify = example_verify and token = example_token and p = ?p
              and db = example_pool and is_email = zod_email and fs = ?fs,
              OF a example_verify_token i7 b7]
  note t5 = ownership_check[where verify = example_verify and token = example_token and p = ?p
              and db = example_pool and is_email = zod_email and fs = ?fs,
              OF a example_verify_token i5 b5]
  have e: "executed example_pool = []" by (simp add: example_pool_def)
  have b: "body (example_request header ident example_payload) = Some (JObj ?fs)" for header ident
    by (simp add: example_request_fields example_payload_def)
  have m: "truthy (map_of ?fs ''username'')" "truthy (map_of ?fs ''email'')"
          "map_of ?fs ''username'' = Some (JStr ''ann'')"
          "map_of ?fs ''email'' = Some (JStr ''ann@example.org'')"
    by (simp_all add: truthy_def)
  have "5 \<noteq> radix_value 10 (param_id (example_request (Some (''Bearer '' @ example_token)) ''7'' example_payload))"
    by (simp only: example_request_fields example_idents)
  with t7[THEN conjunct1] have mismatch:
    "delete_user_route example_verify example_pool
       (example_request (Some (''Bearer '' @ example_token)) ''7'' example_payload)
     = (Responded (reply 403 (JObj [(''error'', JStr ''Users can only update their own account'')])),
        example_pool)
   \<and> put_user_route example_verify zod_email example_pool
       (example_request (Some (''Bearer '' @ example_token)) ''7'' example_payload)
     = (Responded (reply 403 (JObj [(''error'', JStr ''Users can only update their own account'')])),
        example_pool)
   \<and> patch_user_route example_verify example_pool
       (example_request (Some (''Bearer '' @ example_token)) ''7'' example_payload)
     = (Responded (reply 403 (JObj [(''error'', JStr ''Users can only update their own account'')])),
        example_pool)"
    by (simp add: example_request_fields example_payload_valid)
  have "5 = radix_value 10 (param_id (example_request (Some (''Bearer '' @ example_token)) ''5'' example_payload))"
    by (simp only: example_request_fields example_idents)
  with t5[THEN conjunct2] have match:
    "executed (snd (delete_user_route example_verify example_pool
       (example_request (Some (''Bearer '' @ example_token)) ''5'' example_payload)))
     = [Update (DeleteUser (Fin 5))]
   \<and> executed (snd (put_user_route example_verify zod_email example_pool
       (example_request (Some (''Bearer '' @ example_token)) ''5'' example_payload)))
     = [Update (UpdateUser (Some (JStr ''ann'')) (Some (JStr ''ann@example.org'')) (Fin 5))]
   \<and> take 1 (executed (snd (patch_user_route example_verify example_pool
       (example_request (Some (''Bearer '' @ example_token)) ''5'' example_payload))))
     = [Update (UpdateUserSet [(Username, Some (JStr ''ann'')), (Email, Some (JStr ''ann@example.org''))]
                              (Fin 5))]"
    by (simp add: example_request_fields example_payload_valid[unfolded example_payload_def] e m
          example_payload_def truthy_def)
  from mismatch match show ?thesis by blast
qed

text \<open>The claim as written fails twice.  \<open>PUT /users/7\<close> with the token of user 5 and the
  payload \<open>{"username": "x", "email": "bad"}\<close> is a mutating request with an
  authenticated identity that differs from the path id, and it is answered 400 by the
  payload validator, which runs before the handler.  \<open>DELETE /users/9007199254740993\<close>
  with the token of user 9007199254740992 has ids that differ, but \<open>Number\<close> rounds
  the path id to 9007199254740992: the handler finds the two equal, hands the \<open>DELETE\<close>
  to the storage and answers 404, no such row being stored.\<close>

theorem ownership_claim_fails:
  "map_option userId (example_verify example_token) = Some 5
   \<and> Number ''7'' = Fin 7
   \<and> put_user_route example_verify zod_email example_pool
       (example_request (Some (''Bearer '' @ example_token)) ''7''
          (Some (JObj [(''username'', JStr ''x''), (''email'', JStr ''bad'')])))
     = (Responded (reply 400 (JObj [(''error'', JStr ''Validation failed''),
                                    (''details'', JArr [JStr ''Username must be at least 2 characters'',
                                                        JStr ''Email must be a valid email''])])),
        example_pool)
   \<and> map_option userId (example_verify (generateToken example_mac ''secret'' 900 9007199254740992))
     = Some 9007199254740992
   \<and> Number ''9007199254740993'' = Fin 9007199254740992
   \<and> delete_user_route example_verify example_pool
       (example_request (Some (''Bearer '' @ generateToken example_mac ''secret'' 900 9007199254740992))
          ''9007199254740993'' None)
     = (Responded (reply 404 (JObj [(''message'', JStr ''User not found'')])),
        example_pool\<lparr>executed := [Update (DeleteUser (Fin 9007199254740992))]\<rparr>)"
proof -
  have n: "Number ''7'' = Fin 7"
    using Number_validated[of "''7''"] by (simp add: example_idents)
  have e: "\<not> zod_email ''bad''"
    by (simp add: zod_email_def)
  have v: "validateRequiredUserData zod_email r
             = Reply (reply 400 (JObj [(''error'', JStr ''Validation failed''),
                                    (''details'', JArr [JStr ''Username must be at least 2 characters'',
                                                        JStr ''Email must be a valid email''])]))"
    if "body r = Some (JObj [(''username'', JStr ''x''), (''email'', JStr ''bad'')])" for r
    using that e
    by (simp add: validateRequiredUserData_def validated_def requiredUserDataSchema_def
          z_object_def z_string_min_max_def z_email_def validation_failed_def)
  have i: "validateUserId r = Next r" if "userIdSchema (param_id r) = []" for r
    using that by (simp add: validateUserId_def validated_def)
  have put: "put_user_route example_verify zod_email example_pool
       (example_request (Some (''Bearer '' @ example_token)) ''7''
          (Some (JObj [(''username'', JStr ''x''), (''email'', JStr ''bad'')])))
     = (Responded (reply 400 (JObj [(''error'', JStr ''Validation failed''),
                                    (''details'', JArr [JStr ''Username must be at least 2 characters'',
                                                        JStr ''Email must be a valid email''])])),
        example_pool)"
    unfolding put_user_route_def authenticate_example through_def
    by (simp add: i v example_request_fields example_idents)
  have big: "Number ''9007199254740993'' = Fin 9007199254740992"
    using Number_digits[of "''9007199254740993''"] by (simp add: example_idents to_double_tie)
  have h: "delete_user example_pool
             (example_request header ''9007199254740993'' None\<lparr>user := Some 9007199254740992\<rparr>)
           = (Responded (reply 404 (JObj [(''message'', JStr ''User not found'')])),
              example_pool\<lparr>executed := [Update (DeleteUser (Fin 9007199254740992))]\<rparr>)" for header
    by (simp add: delete_user_def big not_found_def example_request_fields example_pool_def
          execute_update_def apply_update_def matching_def id_is_def)
  have del: "delete_user_route example_verify example_pool
       (example_request (Some (''Bearer '' @ generateToken example_mac ''secret'' 900 9007199254740992))
          ''9007199254740993'' None)
     = (Responded (reply 404 (JObj [(''message'', JStr ''User not found'')])),
        example_pool\<lparr>executed := [Update (DeleteUser (Fin 9007199254740992))]\<rparr>)"
    unfolding delete_user_route_def authenticate_issued through_def
    by (simp add: i h example_request_fields example_idents)
  show ?thesis
    unfolding put del
    using n big by (simp add: example_verify_token example_verify_issued)
qed

subsection \<open>Posts of a user\<close>

text \<open>
  Claim C10.  \<open>GET /users/:id/posts\<close> does not run the user-id validator.  It answers 400
  when \<open>Number(id)\<close> is \<open>NaN\<close>, and then the storage is not touched; for every other id
  the statement selecting the user's posts is handed to the storage with the parsed
  number bound, and the answer is not the 400.  \<open>"-2"\<close>, \<open>"3.5"\<close>, \<open>" 7 "\<close>, \<open>"0x1F"\<close> and
  \<open>"1e3"\<close> parse to \<open>-2\<close>, \<open>3.5\<close>, \<open>7\<close>, \<open>31\<close> and \<open>1000\<close>, and the user-id validator
  rejects each of them.
\<close>

theorem get_user_posts_proceeds:
  "(isNaN (Number (param_id req)) \<longrightarrow>
      get_user_posts db req = (Responded (reply 400 (JObj [(''error'', JStr ''Invalid user ID'')])), db))
   \<and> (\<not> isNaN (Number (param_id req)) \<longrightarrow>
      executed (snd (get_user_posts db req))
        = executed db @ [Query (SelectPostsByUser (Number (param_id req)))]
      \<and> (\<exists>r. fst (get_user_posts db req) = Responded r \<and> (status r = 200 \<or> status r = 500)))
   \<and> Number ''-2'' = Fin (- 2) \<and> userIdSchema ''-2'' = [''ID must be a positive number'']
   \<and> Number ''3.5'' = Fin (7 / 2) \<and> userIdSchema ''3.5'' = [''ID must be a positive number'']
   \<and> Number '' 7 '' = Fin 7 \<and> userIdSchema '' 7 '' = [''ID must be a positive number'']
   \<and> Number ''0x1F'' = Fin 31 \<and> userIdSchema ''0x1F'' = [''ID must be a positive number'']
   \<and> Number ''1e3'' = Fin 1000 \<and> userIdSchema ''1e3'' = [''ID must be a positive number'']"
proof -
  have nan: "isNaN (Number (param_id req)) \<longrightarrow>
      get_user_posts db req = (Responded (reply 400 (JObj [(''error'', JStr ''Invalid user ID'')])), db)"
    by (simp add: get_user_posts_def)
  have num: "\<not> isNaN (Number (param_id req)) \<longrightarrow>
      executed (snd (get_user_posts db req))
        = executed db @ [Query (SelectPostsByUser (Number (param_id req)))]
      \<and> (\<exists>r. fst (get_user_posts db req) = Responded r \<and> (status r = 200 \<or> status r = 500))"
  proof
    assume a: "\<not> isNaN (Number (param_id req))"
    obtain res db1 where e: "execute_query (SelectPostsByUser (Number (param_id req))) db = (res, db1)"
      by force
    then have "executed db1 = executed db @ [Query (SelectPostsByUser (Number (param_id req)))]"
      using execute_query_executed[of "SelectPostsByUser (Number (param_id req))" db] by simp
    then show "executed (snd (get_user_posts db req))
        = executed db @ [Query (SelectPostsByUser (Number (param_id req)))]
      \<and> (\<exists>r. fst (get_user_posts db req) = Responded r \<and> (status r = 200 \<or> status r = 500))"
      using a e by (simp add: get_user_posts_def reply_def split: sum.splits)
  qed
  have "StringNumericValue ''-2'' = Fin (- 2)" by code_simp
  then have 1: "Number ''-2'' = Fin (- 2)"
    using Number_of_value[of "''-2''" "- 2"] by simp
  have "StringNumericValue ''3.5'' = Fin (7 / 2)" by code_simp
  then have 2: "Number ''3.5'' = Fin (7 / 2)"
    by (simp add: Number_def to_double_7_2)
  have "StringNumericValue '' 7 '' = Fin 7" by code_simp
  then have 3: "Number '' 7 '' = Fin 7"
    using Number_of_value[of "'' 7 ''" 7] by simp
  have "StringNumericValue ''0x1F'' = Fin 31" by code_simp
  then have 4: "Number ''0x1F'' = Fin 31"
    using Number_of_value[of "''0x1F''" 31] by simp
  have "StringNumericValue ''1e3'' = Fin 1000" by code_simp
  then have 5: "Number ''1e3'' = Fin 1000"
    using Number_of_value[of "''1e3''" 1000] by simp
  have v: "userIdSchema ''-2'' = [''ID must be a positive number'']"
          "userIdSchema ''3.5'' = [''ID must be a positive number'']"
          "userIdSchema '' 7 '' = [''ID must be a positive number'']"
          "userIdSchema ''0x1F'' = [''ID must be a positive number'']"
          "userIdSchema ''1e3'' = [''ID must be a positive number'']"
    by (simp_all add: userIdSchema_def z_digits_def is_digit_def)
  show ?thesis using nan num 1 2 3 4 5 v by blast
qed

theorem get_user_posts_proceeds_witness:
  "get_user_posts example_pool (example_request None ''abc'' None)
     = (Responded (reply 400 (JObj [(''error'', JStr ''Invalid user ID'')])), example_pool)
   \<and> executed (snd (get_user_posts example_pool (example_request None ''-2'' None)))
     = [Query (SelectPostsByUser (Fin (- 2)))]"
proof -
  have "StringNumericValue ''abc'' = NaN" by code_simp
  then have n: "Number ''abc'' = NaN" by (simp add: Number_def)
  have "StringNumericValue ''-2'' = Fin (- 2)" by code_simp
  then have m: "Number ''-2'' = Fin (- 2)"
    using Number_of_value[of "''-2''" "- 2"] by simp
  have a: "get_user_posts example_pool (example_request None ''abc'' None)
     = (Responded (reply 400 (JObj [(''error'', JStr ''Invalid user ID'')])), example_pool)"
    using get_user_posts_proceeds[of "example_request None ''abc'' None" example_pool, THEN conjunct1]
    by (simp add: example_request_fields n isNaN_def)
  have b: "executed (snd (get_user_posts example_pool (example_request None ''-2'' None)))
     = [Query (SelectPostsByUser (Fin (- 2)))]"
    using get_user_posts_proceeds[of "example_request None ''-2'' None" example_pool,
            THEN conjunct2, THEN conjunct1]
    by (simp add: example_request_fields m isNaN_def example_pool_def)
  show ?thesis using a b by blast
qed

end
